theory Spec2Isabelle
  imports Main "HOL-Library.Sublist" "HOL-Library.AList"
begin

section \<open>The pretext command line: data, effects and helpers\<close>

text \<open>
  The module \<^verbatim>\<open>pretext/cli.py\<close> is a sequence of calls into the file system, into the
  package's helper modules (\<^verbatim>\<open>utils\<close>, \<^verbatim>\<open>builder\<close>, \<^verbatim>\<open>project\<close>) and into the
  transformation engine. A command is modelled as a function from the file system to
  \<^item> how it ended: \<open>Inr\<close> a value, or \<open>Inl\<close> a \<open>halt\<close> (a \<^verbatim>\<open>sys.exit\<close> or an uncaught
    Python exception),
  \<^item> the file system it leaves, and
  \<^item> the list of what it did that can be seen from outside: log records, validation
    calls, changes of the file system and calls of the engine, in order.
  Strings are lists of characters (code points below 256). The group callback \<^verbatim>\<open>main\<close>
  (lines 32 to 47) sets the verbosity, logs where the project is and changes into its
  directory; the commands are modelled from the state it leaves, so \<^verbatim>\<open>os.path.abspath\<close>
  is one fixed function during a command.
\<close>

subsection \<open>File system\<close>

type_synonym path = string

datatype node = File string | Dir

type_synonym fstate = "path \<Rightarrow> node option"

definition isfile :: "fstate \<Rightarrow> path \<Rightarrow> bool" where
  "isfile fs p = (case fs p of Some (File c) \<Rightarrow> True | _ \<Rightarrow> False)"

definition isdir :: "fstate \<Rightarrow> path \<Rightarrow> bool" where
  "isdir fs p = (case fs p of Some Dir \<Rightarrow> True | _ \<Rightarrow> False)"

text \<open>
  \<open>inside d p\<close>: the path \<open>p\<close> is the directory \<open>d\<close> itself or lies below it
  (both absolute and normalised, as \<^verbatim>\<open>os.path.abspath\<close> returns them).
\<close>

definition inside :: "path \<Rightarrow> path \<Rightarrow> bool" where
  "inside d p =
     (p = d \<or> (if d \<noteq> [] \<and> last d = CHR ''/'' then prefix d p else prefix (d @ ''/'') p))"

text \<open>\<^verbatim>\<open>shutil.rmtree(d)\<close>: the directory and everything below it are gone.\<close>

definition rmtree :: "path \<Rightarrow> fstate \<Rightarrow> fstate" where
  "rmtree d fs = (\<lambda>p. if inside d p then None else fs p)"

subsection \<open>How a command ends, and what it does\<close>

datatype pyexn =
    AttributeError
  | TypeError
  | KeyError string
  | IndexError
  | ValueError
  | FileNotFoundError
  | External string

datatype halt = SysExit string | Uncaught pyexn

datatype level = DEBUG | INFO | WARNING | ERROR | CRITICAL

type_synonym params = "(string \<times> string) list"

text \<open>The five entry points of \<^verbatim>\<open>builder\<close>, with the arguments of the call.\<close>

datatype engine_call =
    Webwork path path path params string
  | Diagrams path path string params string
  | Html path path path params
  | Latex path path path params
  | Pdf path path path params

datatype event =
    Log level string
  | XmlSyntaxCheck path
  | SchemaValidate path
  | EnsureDirectory path
  | RmTree path
  | Engine engine_call
  | CopyFile path path
  | UnpackTemplate string path
  | RunServer path string int
  | TargetView string string int bool

type_synonym 'a prog = "fstate \<Rightarrow> (halt + 'a) \<times> fstate \<times> event list"

definition ret :: "'a \<Rightarrow> 'a prog" where
  "ret x = (\<lambda>fs. (Inr x, fs, []))"

definition bind :: "'a prog \<Rightarrow> ('a \<Rightarrow> 'b prog) \<Rightarrow> 'b prog" where
  "bind m k = (\<lambda>fs.
     case m fs of
       (Inl h, fs1, es1) \<Rightarrow> (Inl h, fs1, es1)
     | (Inr x, fs1, es1) \<Rightarrow> (case k x fs1 of (r, fs2, es2) \<Rightarrow> (r, fs2, es1 @ es2)))"

definition stop :: "halt \<Rightarrow> 'a prog" where
  "stop h = (\<lambda>fs. (Inl h, fs, []))"

definition sys_exit :: "string \<Rightarrow> 'a prog" where
  "sys_exit msg = stop (SysExit msg)"

definition raise :: "pyexn \<Rightarrow> 'a prog" where
  "raise e = stop (Uncaught e)"

definition emit :: "event \<Rightarrow> unit prog" where
  "emit e = (\<lambda>fs. (Inr (), fs, [e]))"

definition log :: "level \<Rightarrow> string \<Rightarrow> unit prog" where
  "log lv msg = emit (Log lv msg)"

text \<open>A call that only reads the file system and may itself exit or raise.\<close>

definition reading :: "(fstate \<Rightarrow> halt + 'a) \<Rightarrow> 'a prog" where
  "reading f = (\<lambda>fs. (f fs, fs, []))"

text \<open>
  A call that may change the file system; it is recorded before its outcome is
  known, since it has been made whether or not it then fails.
\<close>

definition effect :: "event \<Rightarrow> (fstate \<Rightarrow> halt option \<times> fstate) \<Rightarrow> unit prog" where
  "effect e f = (\<lambda>fs.
     case f fs of
       (None, fs1) \<Rightarrow> (Inr (), fs1, [e])
     | (Some h, fs1) \<Rightarrow> (Inl h, fs1, [e]))"

definition check :: "event \<Rightarrow> (fstate \<Rightarrow> halt option) \<Rightarrow> unit prog" where
  "check e f = effect e (\<lambda>fs. (f fs, fs))"

text \<open>
  \<^verbatim>\<open>try: body except: handler\<close> with a bare \<^verbatim>\<open>except\<close>, which catches every
  exception, \<^verbatim>\<open>SystemExit\<close> included. What the body did before it failed stays done.
\<close>

definition try_except :: "'a prog \<Rightarrow> 'a prog \<Rightarrow> 'a prog" where
  "try_except body handler = (\<lambda>fs.
     case body fs of
       (Inl h, fs1, es1) \<Rightarrow> (case handler fs1 of (r, fs2, es2) \<Rightarrow> (r, fs2, es1 @ es2))
     | (Inr x, fs1, es1) \<Rightarrow> (Inr x, fs1, es1))"

text \<open>An \<^verbatim>\<open>if\<close> without \<^verbatim>\<open>else\<close>.\<close>

definition only_if :: "bool \<Rightarrow> unit prog \<Rightarrow> unit prog" where
  "only_if b m = (if b then m else ret ())"

subsection \<open>Python strings\<close>

text \<open>\<^verbatim>\<open>str.isspace\<close> on one character, for code points below 256.\<close>

definition isspace :: "char \<Rightarrow> bool" where
  "isspace c = (c \<in> set [CHR 0x09, CHR 0x0A, CHR 0x0B, CHR 0x0C, CHR 0x0D,
                          CHR 0x1C, CHR 0x1D, CHR 0x1E, CHR 0x1F, CHR 0x20,
                          CHR 0x85, CHR 0xA0])"

definition strip :: "string \<Rightarrow> string" where
  "strip s = rev (dropWhile isspace (rev (dropWhile isspace s)))"

text \<open>\<^verbatim>\<open>s.split(c)\<close> for a one-character separator: never the empty list.\<close>

fun split :: "char \<Rightarrow> string \<Rightarrow> string list" where
  "split c [] = [[]]"
| "split c (x # xs) =
     (if x = c then [] # split c xs
      else (case split c xs of
              [] \<Rightarrow> [[x]]
            | w # ws \<Rightarrow> (x # w) # ws))"

fun join :: "string \<Rightarrow> string list \<Rightarrow> string" where
  "join sep [] = []"
| "join sep [w] = w"
| "join sep (w # v # ws) = w @ sep @ join sep (v # ws)"

text \<open>How an f-string prints a value that may be \<^verbatim>\<open>None\<close>.\<close>

definition fmt :: "string option \<Rightarrow> string" where
  "fmt v = (case v of None \<Rightarrow> ''None'' | Some s \<Rightarrow> s)"

text \<open>\<^verbatim>\<open>os.path.join\<close>, \<^verbatim>\<open>os.path.dirname\<close> and \<^verbatim>\<open>os.path.basename\<close> of \<^verbatim>\<open>posixpath\<close>.\<close>

definition path_join :: "path \<Rightarrow> path \<Rightarrow> path" where
  "path_join a b =
     (if b \<noteq> [] \<and> hd b = CHR ''/'' then b
      else if a = [] \<or> last a = CHR ''/'' then a @ b
      else a @ ''/'' @ b)"

definition basename :: "path \<Rightarrow> path" where
  "basename p = rev (takeWhile (\<lambda>c. c \<noteq> CHR ''/'') (rev p))"

definition dirname :: "path \<Rightarrow> path" where
  "dirname p =
     (let h = rev (dropWhile (\<lambda>c. c \<noteq> CHR ''/'') (rev p))
      in if h \<noteq> [] \<and> \<not> list_all (\<lambda>c. c = CHR ''/'') h
         then rev (dropWhile (\<lambda>c. c = CHR ''/'') (rev h))
         else h)"

subsection \<open>XML elements\<close>

text \<open>
  An element as \<^verbatim>\<open>lxml\<close> shows it: tag, attributes, the text before the first child
  (\<^verbatim>\<open>None\<close> when there is none) and the children in document order.
\<close>

datatype xml = Elem string "(string \<times> string) list" "string option" "xml list"

fun el_tag :: "xml \<Rightarrow> string" where
  "el_tag (Elem t a x cs) = t"

fun attrib :: "xml \<Rightarrow> (string \<times> string) list" where
  "attrib (Elem t a x cs) = a"

fun el_text :: "xml \<Rightarrow> string option" where
  "el_text (Elem t a x cs) = x"

fun el_children :: "xml \<Rightarrow> xml list" where
  "el_children (Elem t a x cs) = cs"

definition children_named :: "string \<Rightarrow> xml \<Rightarrow> xml list" where
  "children_named t e = filter (\<lambda>c. el_tag c = t) (el_children e)"

text \<open>\<^verbatim>\<open>e.find(t)\<close> for a plain tag: the first child with that tag, or \<^verbatim>\<open>None\<close>.\<close>

definition find_child :: "string \<Rightarrow> xml \<Rightarrow> xml option" where
  "find_child t e = (case children_named t e of [] \<Rightarrow> None | c # _ \<Rightarrow> Some c)"

text \<open>\<^verbatim>\<open>e.find('a/b')\<close>: the first \<open>b\<close> child of an \<open>a\<close> child, in document order.\<close>

definition find_path2 :: "string \<Rightarrow> string \<Rightarrow> xml \<Rightarrow> xml option" where
  "find_path2 a b e =
     (case concat (map (children_named b) (children_named a e)) of
        [] \<Rightarrow> None
      | c # _ \<Rightarrow> Some c)"

text \<open>\<^verbatim>\<open>tree.xpath('/a/b/c')\<close> on the root element of a parsed document.\<close>

definition xpath3 :: "string \<Rightarrow> string \<Rightarrow> string \<Rightarrow> xml \<Rightarrow> xml list" where
  "xpath3 a b c root =
     (if el_tag root = a
      then concat (map (children_named c) (children_named b root))
      else [])"

text \<open>Every element of the document, the root first: what \<^verbatim>\<open>//\<close> ranges over.\<close>

fun elements :: "xml \<Rightarrow> xml list" where
  "elements (Elem t a x cs) = Elem t a x cs # concat (map elements cs)"

definition has_attr :: "string \<Rightarrow> xml \<Rightarrow> bool" where
  "has_attr k e = (map_of (attrib e) k \<noteq> None)"

section \<open>The environment of a command\<close>

text \<open>
  What \<^verbatim>\<open>cli.py\<close> calls and does not define: the helpers of \<^verbatim>\<open>pretext.utils\<close>,
  \<^verbatim>\<open>pretext.build\<close> and \<^verbatim>\<open>pretext.project\<close>, the XML parser, the network and the
  operating system's path resolution. Each is a parameter: the theorems below hold for
  whatever these do, unless a theorem names what it needs of them.
  \<^item> \<open>project_path d\<close> is \<^verbatim>\<open>utils.project_path(d)\<close> (\<open>None\<close>: called without argument);
  \<^item> \<open>project_xml\<close> is the root element of \<^verbatim>\<open>utils.project_xml()\<close>;
  \<^item> \<open>target_xml a\<close> is \<^verbatim>\<open>utils.target_xml(alias=a)\<close>;
  \<^item> \<open>parse_xml p\<close> is the root element of \<^verbatim>\<open>ET.parse(p)\<close> after \<^verbatim>\<open>xinclude()\<close>;
  \<^item> \<open>abspath\<close> is \<^verbatim>\<open>os.path.abspath\<close> in the working directory of the invocation;
  \<^item> \<open>static_dir\<close> is \<^verbatim>\<open>os.path.dirname(static.__file__)\<close>;
  \<^item> \<open>engine\<close> runs one entry point of \<^verbatim>\<open>builder\<close>;
  \<^item> \<open>download_zip\<close> is \<^verbatim>\<open>ZipFile(BytesIO(requests.get(url).content))\<close>, \<open>open_zip\<close> is
    \<^verbatim>\<open>ZipFile(path)\<close>, both as the list of members (name, content), and \<open>copy_members\<close>
    is the extraction of the named members into a temporary directory followed by
    \<^verbatim>\<open>shutil.copytree\<close>;
  \<^item> \<open>project_target n\<close> is \<^verbatim>\<open>Project().target(name=n)\<close>, a target standing for its
    name, \<open>target_view\<close> its method \<^verbatim>\<open>view\<close>, and \<open>run_server\<close> is \<^verbatim>\<open>utils.run_server\<close>.
\<close>

type_synonym archive = "(string \<times> string) list"

record env =
  project_path :: "path option \<Rightarrow> fstate \<Rightarrow> halt + path option"
  project_xml :: "fstate \<Rightarrow> halt + xml"
  target_xml :: "string option \<Rightarrow> fstate \<Rightarrow> halt + xml option"
  xml_syntax_check :: "path \<Rightarrow> fstate \<Rightarrow> halt option"
  schema_validate :: "path \<Rightarrow> fstate \<Rightarrow> halt option"
  ensure_directory :: "path \<Rightarrow> fstate \<Rightarrow> halt option \<times> fstate"
  parse_xml :: "path \<Rightarrow> fstate \<Rightarrow> halt + xml"
  abspath :: "path \<Rightarrow> path"
  static_dir :: path
  engine :: "engine_call \<Rightarrow> fstate \<Rightarrow> halt option \<times> fstate"
  download_zip :: "string \<Rightarrow> halt + archive"
  open_zip :: "path \<Rightarrow> fstate \<Rightarrow> halt + archive"
  copy_members :: "archive \<Rightarrow> string list \<Rightarrow> string \<Rightarrow> path \<Rightarrow> fstate \<Rightarrow> halt option \<times> fstate"
  project_target :: "string option \<Rightarrow> fstate \<Rightarrow> halt + string option"
  target_view :: "string \<Rightarrow> string \<Rightarrow> int \<Rightarrow> bool \<Rightarrow> fstate \<Rightarrow> halt option \<times> fstate"
  run_server :: "path \<Rightarrow> string \<Rightarrow> int \<Rightarrow> fstate \<Rightarrow> halt option \<times> fstate"

section \<open>pretext build\<close>

subsection \<open>Resolving the configuration (lines 134 to 188)\<close>

record config =
  c_target :: "string option"
  c_source :: path
  c_output :: path
  c_publication :: "path option"
  c_format :: "string option"

text \<open>
  Lines 135 to 152. Without a manifest the defaults are filled in and only the targets
  \<^verbatim>\<open>html\<close> and \<^verbatim>\<open>latex\<close> pass. The result is \<^verbatim>\<open>manifest_dir\<close>, \<^verbatim>\<open>manifest\<close>,
  \<^verbatim>\<open>target\<close>, \<^verbatim>\<open>source\<close> and \<^verbatim>\<open>output\<close>. (Line 150 sets \<^verbatim>\<open>target_format\<close>, which
  lines 182 to 188 always overwrite.)
\<close>

definition locate_manifest ::
  "env \<Rightarrow> string option \<Rightarrow> path option \<Rightarrow> path option \<Rightarrow>
   (path option \<times> string option \<times> string option \<times> path option \<times> path option) prog" where
  \<open>locate_manifest ext target source output =
     bind (reading (project_path ext None)) (\<lambda>manifest_dir.
       case manifest_dir of
         None \<Rightarrow>
           bind (log WARNING
                  ''No project manifest was found.  Run `pretext init` to generate one.'') (\<lambda>_.
             let target1 = (case target of None \<Rightarrow> ''html'' | Some t \<Rightarrow> t);
                 source1 = (case source of None \<Rightarrow> ''source/main.ptx'' | Some s \<Rightarrow> s);
                 output1 = (case output of None \<Rightarrow> ''output/'' @ target1 | Some d \<Rightarrow> d)
             in if target1 \<noteq> ''html'' \<and> target1 \<noteq> ''latex''
                then bind (log CRITICAL
                       ''Without a project manifest, you can only build "html" or "latex".  Exiting...'')
                       (\<lambda>_. sys_exit ''`pretext build` did not complete.  Please try again.'')
                else ret (None, None, Some target1, Some source1, Some output1))
       | Some d \<Rightarrow> ret (Some d, Some ''project.ptx'', target, source, output))\<close>

text \<open>Lines 155 to 157: without a target, the name of the manifest's first target.\<close>

definition first_target ::
  "env \<Rightarrow> path option \<Rightarrow> string option \<Rightarrow> string option \<Rightarrow> string option prog" where
  "first_target ext manifest_dir manifest target =
     (case target of
        Some t \<Rightarrow> ret (Some t)
      | None \<Rightarrow>
          bind (reading (project_xml ext)) (\<lambda>doc.
            case find_path2 ''targets'' ''target'' doc of
              None \<Rightarrow> raise AttributeError
            | Some e \<Rightarrow>
                let target1 = map_of (attrib e) ''name''
                in bind (log INFO
                          (''Since no build target was supplied, we will build '' @ fmt target1 @
                           '', the first target of the project manifest '' @ fmt manifest @
                           '' in '' @ fmt manifest_dir))
                     (\<lambda>_. ret target1)))"

text \<open>Lines 160 to 162: a target the manifest does not have ends the build.\<close>

definition require_target :: "env \<Rightarrow> string option \<Rightarrow> unit prog" where
  "require_target ext target =
     bind (reading (target_xml ext target)) (\<lambda>e.
       case e of
         None \<Rightarrow>
           bind (log CRITICAL ''Build target does not exist in project manifest project.ptx'')
             (\<lambda>_. sys_exit ''Exiting without completing task.'')
       | Some _ \<Rightarrow> ret ())"

text \<open>\<^verbatim>\<open>utils.target_xml(alias=target).find(t).text.strip()\<close>\<close>

definition child_text :: "env \<Rightarrow> string option \<Rightarrow> string \<Rightarrow> string prog" where
  "child_text ext target t =
     bind (reading (target_xml ext target)) (\<lambda>e.
       case e of
         None \<Rightarrow> raise AttributeError
       | Some tgt \<Rightarrow>
           (case find_child t tgt of
              None \<Rightarrow> raise AttributeError
            | Some c \<Rightarrow>
                (case el_text c of
                   None \<Rightarrow> raise AttributeError
                 | Some s \<Rightarrow> ret (strip s))))"

text \<open>Lines 165 to 178: what the command line left open is read from the manifest.\<close>

definition pull_source :: "env \<Rightarrow> string option \<Rightarrow> path option \<Rightarrow> path prog" where
  "pull_source ext target source =
     (case source of
        Some s \<Rightarrow> ret s
      | None \<Rightarrow>
          bind (child_text ext target ''source'') (\<lambda>s.
          bind (log DEBUG (''No source provided, using '' @ s @ '', taken from manifest''))
            (\<lambda>_. ret s)))"

definition pull_output :: "env \<Rightarrow> string option \<Rightarrow> path option \<Rightarrow> path prog" where
  "pull_output ext target output =
     (case output of
        Some d \<Rightarrow> ret d
      | None \<Rightarrow>
          bind (child_text ext target ''output-dir'') (\<lambda>d.
          bind (log DEBUG (''No output provided, using '' @ d @ '', taken from manifest''))
            (\<lambda>_. ret d)))"

definition pull_publication ::
  "env \<Rightarrow> string option \<Rightarrow> string option \<Rightarrow> path option \<Rightarrow> path option prog" where
  "pull_publication ext manifest target publication =
     (case publication of
        Some p \<Rightarrow> ret (Some p)
      | None \<Rightarrow>
          try_except
            (bind (child_text ext target ''publication'') (\<lambda>p.
             bind (log DEBUG
                    (''No publisher file provided, using '' @ p @ '', taken from manifest''))
               (\<lambda>_. ret (Some p))))
            (bind (log WARNING
                    (''No publisher file was found in '' @ fmt manifest @
                     '', will try to build anyway.''))
               (\<lambda>_. ret None)))"

text \<open>Lines 182 to 188: the format is the manifest's, or else the target's name.\<close>

definition pull_format :: "env \<Rightarrow> string option \<Rightarrow> string option prog" where
  "pull_format ext target =
     try_except
       (bind (child_text ext target ''format'') (\<lambda>f.
        bind (log DEBUG
               (''Setting the target format to '' @ f @
                '', taken from manifest for target '' @ fmt target))
          (\<lambda>_. ret (Some f))))
       (bind (log WARNING
               (''No format listed in the manifest for the target '' @ fmt target @
                ''.  Will try to build using '' @ fmt target @ '' as the format.''))
          (\<lambda>_. ret target))"

text \<open>
  Lines 134 to 157 together: the result is \<^verbatim>\<open>manifest\<close>, the \<^verbatim>\<open>target\<close> that will be
  built, and \<^verbatim>\<open>source\<close> and \<^verbatim>\<open>output\<close> as they stand at line 158.
\<close>

definition name_target ::
  "env \<Rightarrow> string option \<Rightarrow> path option \<Rightarrow> path option \<Rightarrow>
   (string option \<times> string option \<times> path option \<times> path option) prog" where
  "name_target ext target source output =
     bind (locate_manifest ext target source output)
       (\<lambda>(manifest_dir, manifest, target1, source1, output1).
     bind (first_target ext manifest_dir manifest target1) (\<lambda>target2.
     ret (manifest, target2, source1, output1)))"

definition resolve ::
  "env \<Rightarrow> string option \<Rightarrow> path option \<Rightarrow> path option \<Rightarrow> path option \<Rightarrow> config prog" where
  "resolve ext target source output publication =
     bind (name_target ext target source output) (\<lambda>(manifest, target2, source1, output1).
     bind (require_target ext target2) (\<lambda>_.
     bind (log DEBUG
            (''source = '' @ fmt source1 @ '', output = '' @ fmt output1 @
             '', publisher = '' @ fmt publication)) (\<lambda>_.
     bind (pull_source ext target2 source1) (\<lambda>source2.
     bind (pull_output ext target2 output1) (\<lambda>output2.
     bind (pull_publication ext manifest target2 publication) (\<lambda>publication2.
     bind (pull_format ext target2) (\<lambda>target_format.
     ret \<lparr>c_target = target2, c_source = source2, c_output = output2,
          c_publication = publication2, c_format = target_format\<rparr>)))))))"

subsection \<open>Validation and preparation (lines 190 to 222)\<close>

text \<open>Lines 191 and 193: \<^verbatim>\<open>utils.xml_syntax_check\<close>, then \<^verbatim>\<open>utils.schema_validate\<close>.\<close>

definition validate :: "env \<Rightarrow> path \<Rightarrow> unit prog" where
  "validate ext source =
     bind (check (XmlSyntaxCheck source) (xml_syntax_check ext source)) (\<lambda>_.
     check (SchemaValidate source) (schema_validate ext source))"

text \<open>
  Lines 196 and 197: each \<^verbatim>\<open>--param\<close> is cut at its colons; the key is the first
  piece, the value the rest joined again, both stripped. A later key replaces the value
  of an earlier equal one, as in a Python dictionary.
\<close>

definition stringparams_of :: "string list \<Rightarrow> params" where
  "stringparams_of param =
     foldl (\<lambda>d p. case split CHR '':'' p of
                     [] \<Rightarrow> d
                   | k # vs \<Rightarrow> AList.update (strip k) (strip (join '':'' vs)) d)
       [] param"

text \<open>
  Lines 200 to 207. \<^verbatim>\<open>os.path.abspath(None)\<close> raises \<^verbatim>\<open>TypeError\<close>; the message of
  line 204 reads \<^verbatim>\<open>stringparams['publisher']\<close>, which raises \<^verbatim>\<open>KeyError\<close> when no such
  parameter was given, before anything is logged.
\<close>

definition choose_publication :: "env \<Rightarrow> params \<Rightarrow> path option \<Rightarrow> path prog" where
  "choose_publication ext stringparams publication =
     (let publication1 = (case map_of stringparams ''publisher'' of
                            Some v \<Rightarrow> Some v
                          | None \<Rightarrow> publication)
      in case publication1 of
           None \<Rightarrow> raise TypeError
         | Some p \<Rightarrow>
             (let publication2 = abspath ext p
              in bind (reading (\<lambda>fs. Inr (isfile fs publication2))) (\<lambda>found.
                   if \<not> found then
                     (case map_of stringparams ''publisher'' of
                        None \<Rightarrow> raise (KeyError ''publisher'')
                      | Some v \<Rightarrow>
                          bind (log ERROR
                                 (''You or the manifest supplied '' @ v @
                                  '' as a publisher file, but it doesn't exist at that location.  Will try to build anyway.''))
                            (\<lambda>_. ret (path_join (path_join (static_dir ext) ''templates'')
                                         ''publication.ptx'')))
                   else ret publication2)))"

definition ensure :: "env \<Rightarrow> path \<Rightarrow> unit prog" where
  "ensure ext p = effect (EnsureDirectory p) (ensure_directory ext p)"

text \<open>Lines 209 to 214: the asset directories the publication file names.\<close>

definition ensure_asset_directories :: "env \<Rightarrow> path \<Rightarrow> path \<Rightarrow> unit prog" where
  "ensure_asset_directories ext source publication =
     bind (reading (parse_xml ext publication)) (\<lambda>pub_tree.
       case xpath3 ''publication'' ''source'' ''directories'' pub_tree of
         [] \<Rightarrow> raise IndexError
       | d # _ \<Rightarrow>
           (let attributes_dict = attrib d
            in case map_of attributes_dict ''external'' of
                 None \<Rightarrow> raise (KeyError ''external'')
               | Some external \<Rightarrow>
                   bind (ensure ext (abspath ext (path_join (dirname source) external))) (\<lambda>_.
                     case map_of attributes_dict ''generated'' of
                       None \<Rightarrow> raise (KeyError ''generated'')
                     | Some generated \<Rightarrow>
                         ensure ext (abspath ext (path_join (dirname source) generated)))))"

text \<open>Lines 221 and 222: an output directory that exists is removed.\<close>

definition clear_output :: "path \<Rightarrow> unit prog" where
  "clear_output output =
     (\<lambda>fs. if isdir fs output then (Inr (), rmtree output fs, [RmTree output])
           else (Inr (), fs, []))"

text \<open>
  Lines 190 to 222 together: the result is \<^verbatim>\<open>source\<close>, \<^verbatim>\<open>publication\<close> and
  \<^verbatim>\<open>output\<close>, now absolute, and \<^verbatim>\<open>stringparams\<close>.
\<close>

definition prepare :: "env \<Rightarrow> config \<Rightarrow> string list \<Rightarrow> (path \<times> path \<times> path \<times> params) prog" where
  "prepare ext cfg param =
     bind (validate ext (c_source cfg)) (\<lambda>_.
       let stringparams = stringparams_of param
       in bind (choose_publication ext stringparams (c_publication cfg)) (\<lambda>publication.
          bind (ensure_asset_directories ext (c_source cfg) publication) (\<lambda>_.
            let source = abspath ext (c_source cfg);
                output = abspath ext (c_output cfg)
            in bind (clear_output output) (\<lambda>_.
                 ret (source, publication, output, stringparams)))))"

subsection \<open>Dispatch to the engine (lines 224 to 260)\<close>

definition run :: "env \<Rightarrow> engine_call \<Rightarrow> unit prog" where
  "run ext c = effect (Engine c) (engine ext c)"

text \<open>Lines 231 to 236: \<^verbatim>\<open>str(KeyError('server'))\<close> is \<^verbatim>\<open>'server'\<close>, quotes included.\<close>

definition webwork_server :: "params \<Rightarrow> string prog" where
  "webwork_server stringparams =
     (case map_of stringparams ''server'' of
        Some v \<Rightarrow> ret v
      | None \<Rightarrow>
          bind (log WARNING
                 ''No server name, 'server'.  Using default https://webwork-ptx.aimath.org'')
            (\<lambda>_. ret ''https://webwork-ptx.aimath.org''))"

text \<open>Lines 243 to 249: warnings about images and previews that will not be rebuilt.\<close>

definition needs_image :: "xml \<Rightarrow> bool" where
  "needs_image e = (el_tag e \<in> set [''asymptote'', ''latex-image'', ''sageplot''])"

definition needs_preview :: "xml \<Rightarrow> bool" where
  "needs_preview e =
     (el_tag e = ''asymptote'' \<or> el_tag e = ''sageplot'' \<or>
      (el_tag e = ''video'' \<and> has_attr ''youtube'' e) \<or>
      (el_tag e = ''interactive'' \<and> \<not> has_attr ''preview'' e))"

definition warn_not_rebuilt :: "env \<Rightarrow> path \<Rightarrow> string option \<Rightarrow> unit prog" where
  "warn_not_rebuilt ext source target_format =
     bind (reading (parse_xml ext source)) (\<lambda>source_xml.
     bind (only_if (filter needs_image (elements source_xml) \<noteq> [] \<and> target_format = Some ''html'')
            (log WARNING
               ''There are generated images (<latex-image/>, <asymptote/>, or <sageplot/>) or in source, but these will not be (re)built. Run pretext build with the `-d` flag if updates are needed.''))
       (\<lambda>_.
     only_if (filter needs_preview (elements source_xml) \<noteq> [] \<and> target_format = Some ''latex'')
       (log WARNING
          ''The source has interactive elements or videos that need a preview to be generated, but these will not be (re)built. Run `pretext build` with the `-d` flag if updates are needed.'')))"

definition dispatch ::
  "env \<Rightarrow> path \<Rightarrow> path \<Rightarrow> path \<Rightarrow> params \<Rightarrow> string option \<Rightarrow>
   bool \<Rightarrow> bool \<Rightarrow> string \<Rightarrow> bool \<Rightarrow> unit prog" where
  "dispatch ext source publication output stringparams target_format
       webwork diagrams diagrams_format only_assets =
     (let webwork_output = dirname source
      in bind (only_if webwork
                (bind (webwork_server stringparams) (\<lambda>server_params.
                   run ext (Webwork source publication webwork_output stringparams server_params))))
           (\<lambda>_.
         bind (if diagrams
               then run ext (Diagrams source publication ''generated-assets'' stringparams
                               diagrams_format)
               else warn_not_rebuilt ext source target_format) (\<lambda>_.
         bind (only_if (target_format = Some ''html'' \<and> \<not> only_assets)
                (run ext (Html source publication output stringparams))) (\<lambda>_.
         bind (only_if (target_format = Some ''latex'' \<and> \<not> only_assets)
                (run ext (Latex source publication output stringparams))) (\<lambda>_.
         only_if (target_format = Some ''pdf'' \<and> \<not> only_assets)
           (run ext (Pdf source publication output stringparams)))))))"

subsection \<open>The command\<close>

text \<open>
  \<^verbatim>\<open>def build(target, source, output, param, publication, webwork, diagrams,
  diagrams_format, only_assets, pdf)\<close>. The flag \<^verbatim>\<open>pdf\<close> is not read by the body.
\<close>

definition build ::
  "env \<Rightarrow> string option \<Rightarrow> path option \<Rightarrow> path option \<Rightarrow> string list \<Rightarrow> path option \<Rightarrow>
   bool \<Rightarrow> bool \<Rightarrow> string \<Rightarrow> bool \<Rightarrow> bool \<Rightarrow> unit prog" where
  "build ext target source output param publication webwork diagrams diagrams_format
       only_assets pdf =
     bind (resolve ext target source output publication) (\<lambda>cfg.
     bind (prepare ext cfg param) (\<lambda>(source1, publication1, output1, stringparams).
       dispatch ext source1 publication1 output1 stringparams (c_format cfg)
         webwork diagrams diagrams_format only_assets))"

section \<open>pretext new and pretext init\<close>

text \<open>
  Lines 65 to 68 and 98 to 101: \<^verbatim>\<open>utils.project_path\<close> is asked once for the test and
  once more for the message.
\<close>

definition already_a_project :: "env \<Rightarrow> path \<Rightarrow> string \<Rightarrow> unit prog" where
  "already_a_project ext directory_fullpath second_line =
     bind (reading (project_path ext (Some directory_fullpath))) (\<lambda>again.
     bind (log WARNING (''A project already exists in `'' @ fmt again @ ''`.'')) (\<lambda>_.
     log WARNING second_line))"

definition new :: "env \<Rightarrow> string \<Rightarrow> path \<Rightarrow> string option \<Rightarrow> unit prog" where
  "new ext template directory url_template =
     (let directory_fullpath = abspath ext directory
      in bind (reading (project_path ext (Some directory_fullpath))) (\<lambda>found.
           case found of
             Some _ \<Rightarrow> already_a_project ext directory_fullpath ''No new project will be generated.''
           | None \<Rightarrow>
               bind (log INFO
                      (''Generating new PreTeXt project in `'' @ directory_fullpath @
                       ''` using `'' @ template @ ''` template.'')) (\<lambda>_.
               bind (case url_template of
                       Some url \<Rightarrow> reading (\<lambda>_. download_zip ext url)
                     | None \<Rightarrow>
                         reading (open_zip ext
                           (path_join (path_join (static_dir ext) ''templates'')
                              (template @ ''.zip'')))) (\<lambda>archive.
                 case List.find (\<lambda>filepath. basename filepath = ''project.ptx'') (map fst archive) of
                   None \<Rightarrow> raise ValueError
                 | Some project_ptx_path \<Rightarrow>
                     (let project_dir_path = dirname project_ptx_path
                      in bind (effect (UnpackTemplate project_dir_path directory)
                                (copy_members ext archive
                                   (filter (prefix project_dir_path) (map fst archive))
                                   project_dir_path directory)) (\<lambda>_.
                         bind (log INFO
                                (''Success! Open `'' @ directory_fullpath @
                                 ''/source/main.ptx` to edit your document'')) (\<lambda>_.
                         log INFO
                           (''Then try to `pretext build` and `pretext view` from within `'' @
                            directory_fullpath @ ''`.''))))))))"

text \<open>\<^verbatim>\<open>shutil.copyfile(src, dst)\<close>\<close>

definition copyfile :: "path \<Rightarrow> path \<Rightarrow> unit prog" where
  "copyfile src dst =
     (\<lambda>fs. case fs src of
             Some (File c) \<Rightarrow>
               if src = dst then (Inl (Uncaught (External ''SameFileError'')), fs, [])
               else if isdir fs dst then (Inl (Uncaught (External ''IsADirectoryError'')), fs, [])
               else (Inr (), fs(dst \<mapsto> File c), [CopyFile src dst])
           | _ \<Rightarrow> (Inl (Uncaught FileNotFoundError), fs, []))"

definition init :: "env \<Rightarrow> unit prog" where
  "init ext =
     (let directory_fullpath = abspath ext ''.''
      in bind (reading (project_path ext (Some directory_fullpath))) (\<lambda>found.
           case found of
             Some _ \<Rightarrow>
               already_a_project ext directory_fullpath ''No project manifest will be generated.''
           | None \<Rightarrow>
               bind (log INFO
                      (''Generating new PreTeXt manifest in `'' @ directory_fullpath @ ''`.'')) (\<lambda>_.
                 let manifest_path = path_join (path_join (static_dir ext) ''templates'')
                                       ''project.ptx'';
                     project_ptx_path = path_join directory_fullpath ''project.ptx''
                 in bind (copyfile manifest_path project_ptx_path) (\<lambda>_.
                    bind (log INFO
                           (''Success! Open `'' @ project_ptx_path @ ''` to edit your manifest.''))
                      (\<lambda>_.
                    log INFO
                      ''Edit your <target/>s to point to your PreTeXt source and publication files.'')))))"

section \<open>pretext view\<close>

definition view ::
  "env \<Rightarrow> string option \<Rightarrow> string \<Rightarrow> int \<Rightarrow> path option \<Rightarrow> bool \<Rightarrow> unit prog" where
  "view ext target access port directory watch =
     (let target_name = target
      in case directory of
           Some d \<Rightarrow> effect (RunServer d access port) (run_server ext d access port)
         | None \<Rightarrow>
             bind (reading (project_target ext target_name)) (\<lambda>target1.
               case target1 of
                 Some t \<Rightarrow>
                   effect (TargetView t access port watch) (target_view ext t access port watch)
               | None \<Rightarrow>
                   log ERROR (''Target `'' @ fmt target_name @ ''` could not be found.'')))"

section \<open>A small project to run the commands on\<close>

text \<open>
  A project in \<^verbatim>\<open>/proj\<close> with two targets, its source, its publication file and an
  earlier HTML build, and the package's own files in \<^verbatim>\<open>/static\<close>. The working
  directory is \<^verbatim>\<open>/proj\<close>.
\<close>

definition demo_manifest :: xml where
  "demo_manifest =
     Elem ''project'' [] None
       [Elem ''targets'' [] None
          [Elem ''target'' [(''name'', ''html'')] None
             [Elem ''format'' [] (Some ''html'') [],
              Elem ''source'' [] (Some '' source/main.ptx '') [],
              Elem ''publication'' [] (Some ''publication/publication.ptx'') [],
              Elem ''output-dir'' [] (Some ''output/html'') []],
           Elem ''target'' [(''name'', ''print'')] None
             [Elem ''format'' [] (Some ''latex'') [],
              Elem ''source'' [] (Some ''source/main.ptx'') [],
              Elem ''output-dir'' [] (Some ''output/print'') []]]]"

definition demo_publication :: xml where
  "demo_publication =
     Elem ''publication'' [] None
       [Elem ''source'' [] None
          [Elem ''directories'' [(''external'', ''assets''), (''generated'', ''generated-assets'')]
             None []]]"

definition demo_source :: xml where
  "demo_source =
     Elem ''pretext'' [] None
       [Elem ''book'' [] None
          [Elem ''title'' [] (Some ''Demo'') [],
           Elem ''latex-image'' [] (Some ''tikz'') []]]"

definition demo_fs :: fstate where
  "demo_fs =
     (\<lambda>p. None)
       (''/proj'' \<mapsto> Dir,
        ''/proj/project.ptx'' \<mapsto> File ''<project/>'',
        ''/proj/source'' \<mapsto> Dir,
        ''/proj/source/main.ptx'' \<mapsto> File ''<pretext/>'',
        ''/proj/publication'' \<mapsto> Dir,
        ''/proj/publication/publication.ptx'' \<mapsto> File ''<publication/>'',
        ''/proj/output/html'' \<mapsto> Dir,
        ''/proj/output/html/index.html'' \<mapsto> File ''old'',
        ''/static/templates/publication.ptx'' \<mapsto> File ''<publication/>'',
        ''/static/templates/project.ptx'' \<mapsto> File ''<project/>'')"

text \<open>The same disk without the manifest.\<close>

definition bare_fs :: fstate where
  "bare_fs = demo_fs(''/proj/project.ptx'' := None)"

text \<open>The same disk without the publication file the manifest names.\<close>

definition unpublished_fs :: fstate where
  "unpublished_fs = demo_fs(''/proj/publication/publication.ptx'' := None)"

definition demo_abspath :: "path \<Rightarrow> path" where
  "demo_abspath p =
     (if p = ''.'' then ''/proj''
      else if p \<noteq> [] \<and> hd p = CHR ''/'' then p
      else ''/proj/'' @ p)"

definition demo_targets :: "xml list" where
  "demo_targets = concat (map (children_named ''target'') (children_named ''targets'' demo_manifest))"

definition demo_target_xml :: "string option \<Rightarrow> xml option" where
  "demo_target_xml alias =
     (case alias of
        None \<Rightarrow> find_path2 ''targets'' ''target'' demo_manifest
      | Some a \<Rightarrow> List.find (\<lambda>t. map_of (attrib t) ''name'' = Some a) demo_targets)"

definition demo_engine :: "engine_call \<Rightarrow> fstate \<Rightarrow> halt option \<times> fstate" where
  "demo_engine c fs =
     (case c of
        Html s p out ps \<Rightarrow> (None, fs(out \<mapsto> Dir, out @ ''/index.html'' \<mapsto> File ''new''))
      | Latex s p out ps \<Rightarrow> (None, fs(out \<mapsto> Dir, out @ ''/main.tex'' \<mapsto> File ''new''))
      | _ \<Rightarrow> (None, fs))"

definition demo_env :: env where
  "demo_env =
     \<lparr> project_path = (\<lambda>d fs.
         let dir = (case d of None \<Rightarrow> ''/proj'' | Some p \<Rightarrow> p)
         in Inr (if isfile fs (dir @ ''/project.ptx'') then Some dir else None)),
       project_xml = (\<lambda>fs. Inr demo_manifest),
       target_xml = (\<lambda>alias fs. Inr (demo_target_xml alias)),
       xml_syntax_check = (\<lambda>p fs.
         if isfile fs (demo_abspath p) then None
         else Some (SysExit ''XML syntax check failed'')),
       schema_validate = (\<lambda>p fs. None),
       ensure_directory = (\<lambda>p fs. (None, if fs p = None then fs(p \<mapsto> Dir) else fs)),
       parse_xml = (\<lambda>p fs.
         if \<not> isfile fs p then Inl (Uncaught FileNotFoundError)
         else if p = ''/proj/source/main.ptx'' then Inr demo_source
         else Inr demo_publication),
       abspath = demo_abspath,
       static_dir = ''/static'',
       engine = demo_engine,
       download_zip = (\<lambda>url. Inl (Uncaught (External ''ConnectionError''))),
       open_zip = (\<lambda>p fs. Inr [(''book/project.ptx'', ''<project/>'')]),
       copy_members = (\<lambda>ar names d dest fs. (None, fs)),
       project_target = (\<lambda>n fs.
         Inr (case n of
                None \<Rightarrow> Some ''html''
              | Some a \<Rightarrow> if demo_target_xml (Some a) = None then None else Some a)),
       target_view = (\<lambda>t a p w fs. (None, fs)),
       run_server = (\<lambda>d a p fs. (None, fs)) \<rparr>"

section \<open>What a command leaves behind\<close>

fun is_log :: "event \<Rightarrow> bool" where
  "is_log (Log lv msg) = True"
| "is_log _ = False"

fun is_engine :: "event \<Rightarrow> bool" where
  "is_engine (Engine c) = True"
| "is_engine _ = False"

definition engine_free :: "event list \<Rightarrow> bool" where
  "engine_free es = list_all (\<lambda>e. \<not> is_engine e) es"

text \<open>The source file an engine call is given (its first argument).\<close>

fun engine_source :: "engine_call \<Rightarrow> path" where
  "engine_source (Webwork s p w ps srv) = s"
| "engine_source (Diagrams s p g ps f) = s"
| "engine_source (Html s p out ps) = s"
| "engine_source (Latex s p out ps) = s"
| "engine_source (Pdf s p out ps) = s"

text \<open>A quiet program changes no file and only writes to the log.\<close>

definition quiet :: "'a prog \<Rightarrow> bool" where
  "quiet m = (\<forall>fs r fs1 es. m fs = (r, fs1, es) \<longrightarrow> fs1 = fs \<and> list_all is_log es)"

text \<open>A program all of whose events satisfy \<open>P\<close>, however it ends.\<close>

definition emits :: "(event \<Rightarrow> bool) \<Rightarrow> 'a prog \<Rightarrow> bool" where
  "emits P m = (\<forall>fs r fs1 es. m fs = (r, fs1, es) \<longrightarrow> list_all P es)"

text \<open>
  A program that keeps the property \<open>I\<close> of the file system on every run whose events
  all satisfy \<open>Q\<close>.
\<close>

definition tracks :: "(event \<Rightarrow> bool) \<Rightarrow> (fstate \<Rightarrow> bool) \<Rightarrow> 'a prog \<Rightarrow> bool" where
  "tracks Q I m =
     (\<forall>fs r fs1 es. m fs = (r, fs1, es) \<longrightarrow> list_all Q es \<longrightarrow> I fs \<longrightarrow> I fs1)"

text \<open>An event that is no engine call, or an engine call given the source \<open>s\<close>.\<close>

definition given :: "path \<Rightarrow> event \<Rightarrow> bool" where
  "given s e = (case e of Engine c \<Rightarrow> engine_source c = s | _ \<Rightarrow> True)"

text \<open>
  The text of the child \<open>t\<close> of the manifest's target \<open>target\<close>, stripped: what
  \<^verbatim>\<open>utils.target_xml(alias=target).find(t).text.strip()\<close> evaluates to, and \<open>None\<close> where
  that expression raises.
\<close>

definition manifest_value :: "env \<Rightarrow> fstate \<Rightarrow> string option \<Rightarrow> string \<Rightarrow> string option" where
  "manifest_value ext fs target t =
     (case target_xml ext target fs of
        Inr (Some tgt) \<Rightarrow>
          (case find_child t tgt of
             Some c \<Rightarrow> map_option strip (el_text c)
           | None \<Rightarrow> None)
      | _ \<Rightarrow> None)"

text \<open>The manifest has the target (\<^verbatim>\<open>utils.target_xml\<close> returns an element).\<close>

definition has_target :: "env \<Rightarrow> fstate \<Rightarrow> string option \<Rightarrow> bool" where
  "has_target ext fs target =
     (case target_xml ext target fs of Inr (Some tg) \<Rightarrow> True | _ \<Rightarrow> False)"

text \<open>
  Enough for lines 134 to 188 to run through: without a manifest, a target that may be
  built without one and that \<^verbatim>\<open>utils.target_xml\<close> still finds; with a manifest, a named
  target of it that has the children the command line left open.
\<close>

definition ready :: "env \<Rightarrow> fstate \<Rightarrow> string option \<Rightarrow> path option \<Rightarrow> path option \<Rightarrow> bool" where
  "ready ext fs target source output =
     (case project_path ext None fs of
        Inl h \<Rightarrow> False
      | Inr None \<Rightarrow>
          (target = None \<or> target = Some ''html'' \<or> target = Some ''latex'')
          \<and> has_target ext fs (Some (case target of None \<Rightarrow> ''html'' | Some t \<Rightarrow> t))
      | Inr (Some dir) \<Rightarrow>
          target \<noteq> None
          \<and> has_target ext fs target
          \<and> (source = None \<longrightarrow> manifest_value ext fs target ''source'' \<noteq> None)
          \<and> (output = None \<longrightarrow> manifest_value ext fs target ''output-dir'' \<noteq> None))"

section \<open>Lemmas on the stages\<close>

lemma quietD: "quiet m \<Longrightarrow> m fs = (r, fs1, es) \<Longrightarrow> fs1 = fs \<and> list_all is_log es"
  by (simp add: quiet_def)

lemma quiet_ret: "quiet (ret x)"
  by (simp add: quiet_def ret_def)

lemma quiet_stop: "quiet (stop h)"
  by (simp add: quiet_def stop_def)

lemma quiet_raise: "quiet (raise e)"
  by (simp add: raise_def quiet_stop)

lemma quiet_sys_exit: "quiet (sys_exit msg)"
  by (simp add: sys_exit_def quiet_stop)

lemma quiet_log: "quiet (log lv msg)"
  by (simp add: quiet_def log_def emit_def)

lemma quiet_reading: "quiet (reading f)"
  by (auto simp: quiet_def reading_def)

lemma quiet_bind: "quiet m \<Longrightarrow> (\<And>x. quiet (k x)) \<Longrightarrow> quiet (bind m k)"
  unfolding quiet_def bind_def
  by (fastforce split: prod.splits sum.splits)

lemma quiet_try_except: "quiet m \<Longrightarrow> quiet h \<Longrightarrow> quiet (try_except m h)"
  unfolding quiet_def try_except_def
  by (fastforce split: prod.splits sum.splits)

lemmas quiet_intros = quiet_ret quiet_raise quiet_sys_exit quiet_log quiet_reading
  quiet_bind quiet_try_except

lemma quiet_child_text: "quiet (child_text ext target t)"
  unfolding child_text_def
  by (auto intro!: quiet_intros split: option.splits)

lemma quiet_locate_manifest: "quiet (locate_manifest ext target source output)"
  unfolding locate_manifest_def Let_def
  by (auto intro!: quiet_intros split: option.splits)

lemma quiet_first_target: "quiet (first_target ext manifest_dir manifest target)"
  unfolding first_target_def Let_def
  by (auto intro!: quiet_intros split: option.splits)

lemma quiet_name_target: "quiet (name_target ext target source output)"
  unfolding name_target_def
  by (auto intro!: quiet_intros quiet_locate_manifest quiet_first_target)

lemma quiet_require_target: "quiet (require_target ext target)"
  unfolding require_target_def
  by (auto intro!: quiet_intros split: option.splits)

lemma quiet_pull_source: "quiet (pull_source ext target source)"
  unfolding pull_source_def
  by (auto intro!: quiet_intros quiet_child_text split: option.splits)

lemma quiet_pull_output: "quiet (pull_output ext target output)"
  unfolding pull_output_def
  by (auto intro!: quiet_intros quiet_child_text split: option.splits)

lemma quiet_pull_publication: "quiet (pull_publication ext manifest target publication)"
  unfolding pull_publication_def
  by (auto intro!: quiet_intros quiet_child_text split: option.splits)

lemma quiet_pull_format: "quiet (pull_format ext target)"
  unfolding pull_format_def
  by (auto intro!: quiet_intros quiet_child_text)

lemma quiet_resolve: "quiet (resolve ext target source output publication)"
  unfolding resolve_def
  by (auto intro!: quiet_intros quiet_name_target quiet_require_target quiet_pull_source
      quiet_pull_output quiet_pull_publication quiet_pull_format)

lemma bind_Inr: "m fs = (Inr x, fs1, es1) \<Longrightarrow> k x fs1 = (r, fs2, es2) \<Longrightarrow>
  bind m k fs = (r, fs2, es1 @ es2)"
  by (simp add: bind_def)

lemma bind_Inl: "m fs = (Inl h, fs1, es1) \<Longrightarrow> bind m k fs = (Inl h, fs1, es1)"
  by (simp add: bind_def)

lemma bind_InrE:
  assumes "bind m k fs = (Inr y, fs2, es)"
  obtains x fs1 es1 es2 where "m fs = (Inr x, fs1, es1)" and "k x fs1 = (Inr y, fs2, es2)"
    and "es = es1 @ es2"
  using assms unfolding bind_def
  by (auto split: prod.splits sum.splits)

lemma child_text_Inr:
  "child_text ext target t fs = (Inr v, fs1, es) \<Longrightarrow> manifest_value ext fs target t = Some v"
  by (auto simp: child_text_def manifest_value_def bind_def reading_def raise_def stop_def ret_def
      split: sum.splits option.splits)

lemma child_text_run:
  "manifest_value ext fs target t = Some v \<Longrightarrow> child_text ext target t fs = (Inr v, fs, [])"
  by (auto simp: child_text_def manifest_value_def bind_def reading_def raise_def stop_def ret_def
      split: sum.splits option.splits)

lemma child_text_fail:
  "manifest_value ext fs target t = None \<Longrightarrow> \<exists>h. child_text ext target t fs = (Inl h, fs, [])"
  by (auto simp: child_text_def manifest_value_def bind_def reading_def raise_def stop_def ret_def
      split: sum.splits option.splits)

lemma pull_source_Inr:
  "pull_source ext target source fs = (Inr v, fs1, es) \<Longrightarrow>
   (case source of Some s \<Rightarrow> v = s
    | None \<Rightarrow> manifest_value ext fs target ''source'' = Some v)"
  by (auto simp: pull_source_def ret_def split: option.splits
      elim!: bind_InrE dest: child_text_Inr)

lemma pull_output_Inr:
  "pull_output ext target output fs = (Inr v, fs1, es) \<Longrightarrow>
   (case output of Some d \<Rightarrow> v = d
    | None \<Rightarrow> manifest_value ext fs target ''output-dir'' = Some v)"
  by (auto simp: pull_output_def ret_def split: option.splits
      elim!: bind_InrE dest: child_text_Inr)

lemma pull_publication_result:
  "pull_publication ext manifest target publication fs = (r, fs1, es) \<Longrightarrow>
   r = Inr (case publication of Some p \<Rightarrow> Some p
            | None \<Rightarrow> manifest_value ext fs target ''publication'')"
proof (cases publication)
  case (Some p)
  then show "pull_publication ext manifest target publication fs = (r, fs1, es) \<Longrightarrow> ?thesis"
    by (simp add: pull_publication_def ret_def)
next
  case None
  assume run: "pull_publication ext manifest target publication fs = (r, fs1, es)"
  show ?thesis
  proof (cases "manifest_value ext fs target ''publication''")
    case absent: None
    from child_text_fail [OF absent] obtain h
      where "child_text ext target ''publication'' fs = (Inl h, fs, [])" ..
    with run None absent show ?thesis
      by (simp add: pull_publication_def try_except_def bind_def log_def emit_def ret_def)
  next
    case (Some v)
    from child_text_run [OF Some] run None Some show ?thesis
      by (simp add: pull_publication_def try_except_def bind_def log_def emit_def ret_def)
  qed
qed

lemma pull_publication_total:
  "\<exists>p es. pull_publication ext manifest target publication fs = (Inr p, fs, es)"
proof -
  obtain r fs1 es where run: "pull_publication ext manifest target publication fs = (r, fs1, es)"
    by (cases "pull_publication ext manifest target publication fs") auto
  from pull_publication_result [OF run] quietD [OF quiet_pull_publication run] run
  show ?thesis by auto
qed

lemma pull_format_total: "\<exists>f es. pull_format ext target fs = (Inr f, fs, es)"
proof (cases "manifest_value ext fs target ''format''")
  case None
  from child_text_fail [OF None] obtain h
    where "child_text ext target ''format'' fs = (Inl h, fs, [])" ..
  then show ?thesis
    by (simp add: pull_format_def try_except_def bind_def log_def emit_def ret_def)
next
  case (Some v)
  from child_text_run [OF Some] show ?thesis
    by (simp add: pull_format_def try_except_def bind_def log_def emit_def ret_def)
qed

lemma locate_manifest_present:
  "project_path ext None fs = Inr (Some d) \<Longrightarrow>
   locate_manifest ext target source output fs =
     (Inr (Some d, Some ''project.ptx'', target, source, output), fs, [])"
  by (simp add: locate_manifest_def bind_def reading_def ret_def)

lemma locate_manifest_absent:
  \<open>project_path ext None fs = Inr None \<Longrightarrow>
   locate_manifest ext target source output fs =
     (let target1 = (case target of None \<Rightarrow> ''html'' | Some t \<Rightarrow> t)
      in if target1 \<noteq> ''html'' \<and> target1 \<noteq> ''latex''
         then (Inl (SysExit ''`pretext build` did not complete.  Please try again.''), fs,
               [Log WARNING ''No project manifest was found.  Run `pretext init` to generate one.'',
                Log CRITICAL
                  ''Without a project manifest, you can only build "html" or "latex".  Exiting...''])
         else (Inr (None, None, Some target1,
                    Some (case source of None \<Rightarrow> ''source/main.ptx'' | Some s \<Rightarrow> s),
                    Some (case output of None \<Rightarrow> ''output/'' @ target1 | Some d \<Rightarrow> d)), fs,
               [Log WARNING
                  ''No project manifest was found.  Run `pretext init` to generate one.'']))\<close>
  by (simp add: locate_manifest_def Let_def bind_def reading_def ret_def log_def emit_def
      sys_exit_def stop_def)

lemma first_target_given:
  "first_target ext manifest_dir manifest (Some t) fs = (Inr (Some t), fs, [])"
  by (simp add: first_target_def ret_def)

lemma name_target_Inr:
  assumes "name_target ext target source output fs = (Inr (manifest, t, s, d), fs1, es)"
  shows "if project_path ext None fs = Inr None
         then t = Some (case target of None \<Rightarrow> ''html'' | Some a \<Rightarrow> a)
              \<and> s = Some (case source of None \<Rightarrow> ''source/main.ptx'' | Some x \<Rightarrow> x)
              \<and> d = Some (case output of None \<Rightarrow>
                              ''output/'' @ (case target of None \<Rightarrow> ''html'' | Some a \<Rightarrow> a)
                            | Some x \<Rightarrow> x)
         else s = source \<and> d = output"
proof (cases "project_path ext None fs")
  case (Inl h)
  with assms show ?thesis
    by (simp add: name_target_def locate_manifest_def bind_def reading_def)
next
  case (Inr found)
  show ?thesis
  proof (cases found)
    case None
    with Inr have absent: "project_path ext None fs = Inr None" by simp
    from assms show ?thesis
      unfolding name_target_def
      by (auto simp: absent locate_manifest_absent [OF absent] Let_def first_target_given ret_def
          elim!: bind_InrE split: if_splits)
  next
    case (Some dir)
    with Inr have present: "project_path ext None fs = Inr (Some dir)" by simp
    from assms show ?thesis
      unfolding name_target_def
      by (auto simp: present locate_manifest_present [OF present] ret_def elim!: bind_InrE)
  qed
qed

lemma pull_source_run:
  "(source = None \<longrightarrow> manifest_value ext fs target ''source'' \<noteq> None) \<Longrightarrow>
   \<exists>v es. pull_source ext target source fs = (Inr v, fs, es)"
  by (cases source)
     (auto simp: pull_source_def ret_def bind_def log_def emit_def dest!: child_text_run)

lemma pull_output_run:
  "(output = None \<longrightarrow> manifest_value ext fs target ''output-dir'' \<noteq> None) \<Longrightarrow>
   \<exists>v es. pull_output ext target output fs = (Inr v, fs, es)"
  by (cases "output")
     (auto simp: pull_output_def ret_def bind_def log_def emit_def dest!: child_text_run)

lemma require_target_present:
  "target_xml ext target fs = Inr (Some tg) \<Longrightarrow> require_target ext target fs = (Inr (), fs, [])"
  by (simp add: require_target_def bind_def reading_def ret_def)

lemma resolve_succeeds:
  assumes named: "name_target ext target source output fs = (Inr (manifest, t, s, d), fs, ea)"
    and present: "target_xml ext t fs = Inr (Some tg)"
    and src: "s = None \<longrightarrow> manifest_value ext fs t ''source'' \<noteq> None"
    and out: "d = None \<longrightarrow> manifest_value ext fs t ''output-dir'' \<noteq> None"
  shows "\<exists>cfg es. resolve ext target source output publication fs = (Inr cfg, fs, es)"
proof -
  from pull_source_run [OF src] obtain s2 e1 where
    1: "pull_source ext t s fs = (Inr s2, fs, e1)" by blast
  from pull_output_run [OF out] obtain d2 e2 where
    2: "pull_output ext t d fs = (Inr d2, fs, e2)" by blast
  from pull_publication_total obtain p2 e3 where
    3: "pull_publication ext manifest t publication fs = (Inr p2, fs, e3)" by blast
  from pull_format_total obtain f e4 where
    4: "pull_format ext t fs = (Inr f, fs, e4)" by blast
  show ?thesis
    by (simp add: resolve_def bind_def named require_target_present [OF present] 1 2 3 4
        log_def emit_def ret_def)
qed

lemma name_target_present:
  "project_path ext None fs = Inr (Some dir) \<Longrightarrow>
   name_target ext (Some t) source output fs =
     (Inr (Some ''project.ptx'', Some t, source, output), fs, [])"
  by (simp add: name_target_def bind_def locate_manifest_present first_target_given ret_def)

lemma name_target_absent:
  "project_path ext None fs = Inr None \<Longrightarrow>
   target = None \<or> target = Some ''html'' \<or> target = Some ''latex'' \<Longrightarrow>
   name_target ext target source output fs =
     (Inr (None, Some (case target of None \<Rightarrow> ''html'' | Some t \<Rightarrow> t),
           Some (case source of None \<Rightarrow> ''source/main.ptx'' | Some s \<Rightarrow> s),
           Some (case output of None \<Rightarrow>
                   ''output/'' @ (case target of None \<Rightarrow> ''html'' | Some t \<Rightarrow> t)
                 | Some d \<Rightarrow> d)), fs,
      [Log WARNING ''No project manifest was found.  Run `pretext init` to generate one.''])"
  by (auto simp: name_target_def bind_def locate_manifest_absent Let_def first_target_given
      ret_def)

lemma has_targetD: "has_target ext fs target \<Longrightarrow> \<exists>tg. target_xml ext target fs = Inr (Some tg)"
  by (auto simp: has_target_def split: sum.splits option.splits)

lemma resolve_ready:
  assumes "ready ext fs target source output"
  shows "\<exists>cfg es. resolve ext target source output publication fs = (Inr cfg, fs, es)"
proof (cases "project_path ext None fs")
  case (Inl h)
  with assms show ?thesis by (simp add: ready_def)
next
  case (Inr found)
  show ?thesis
  proof (cases found)
    case None
    with Inr have absent: "project_path ext None fs = Inr None" by simp
    from assms absent have ok: "target = None \<or> target = Some ''html'' \<or> target = Some ''latex''"
      and "has_target ext fs (Some (case target of None \<Rightarrow> ''html'' | Some t \<Rightarrow> t))"
      by (simp_all add: ready_def)
    from has_targetD [OF this(2)] obtain tg where
      tg: "target_xml ext (Some (case target of None \<Rightarrow> ''html'' | Some t \<Rightarrow> t)) fs = Inr (Some tg)"
      by blast
    show ?thesis
      by (rule resolve_succeeds [OF name_target_absent [OF absent ok] tg]) simp_all
  next
    case (Some dir)
    with Inr have present: "project_path ext None fs = Inr (Some dir)" by simp
    from assms present obtain t tg where t: "target = Some t"
      and tg: "target_xml ext (Some t) fs = Inr (Some tg)"
      and src: "source = None \<longrightarrow> manifest_value ext fs (Some t) ''source'' \<noteq> None"
      and out: "output = None \<longrightarrow> manifest_value ext fs (Some t) ''output-dir'' \<noteq> None"
      by (auto simp: ready_def dest: has_targetD)
    show ?thesis
      unfolding t
      by (rule resolve_succeeds [OF name_target_present [OF present] tg src out])
  qed
qed


lemmas run_defs = bind_def ret_def stop_def sys_exit_def raise_def emit_def log_def reading_def
  effect_def check_def try_except_def only_if_def Let_def fmt_def

lemmas xml_defs = children_named_def find_child_def find_path2_def xpath3_def has_attr_def

lemmas resolve_defs = resolve_def name_target_def locate_manifest_def first_target_def
  require_target_def child_text_def pull_source_def pull_output_def pull_publication_def
  pull_format_def

lemmas demo_defs = demo_env_def demo_target_xml_def demo_targets_def demo_manifest_def
  demo_abspath_def demo_publication_def demo_source_def demo_engine_def

lemma strip_demo [simp]:
  "strip '' source/main.ptx '' = ''source/main.ptx''"
  "strip ''source/main.ptx'' = ''source/main.ptx''"
  "strip ''html'' = ''html''"
  "strip ''latex'' = ''latex''"
  "strip ''publication/publication.ptx'' = ''publication/publication.ptx''"
  "strip ''output/html'' = ''output/html''"
  "strip ''output/print'' = ''output/print''"
  by (simp_all add: strip_def isspace_def)

lemma demo_fs_manifest [simp]: "isfile demo_fs ''/proj/project.ptx''"
  by (simp add: demo_fs_def isfile_def)

lemma bare_fs_manifest [simp]: "\<not> isfile bare_fs ''/proj/project.ptx''"
  by (simp add: bare_fs_def isfile_def)

lemma demo_resolve_html:
  "resolve demo_env (Some ''html'') None (Some ''out'') None demo_fs =
     (Inr \<lparr>c_target = Some ''html'', c_source = ''source/main.ptx'', c_output = ''out'',
           c_publication = Some ''publication/publication.ptx'', c_format = Some ''html''\<rparr>,
      demo_fs,
      [Log DEBUG ''source = None, output = out, publisher = None'',
       Log DEBUG ''No source provided, using source/main.ptx, taken from manifest'',
       Log DEBUG
         ''No publisher file provided, using publication/publication.ptx, taken from manifest'',
       Log DEBUG ''Setting the target format to html, taken from manifest for target html''])"
  by (simp add: resolve_defs run_defs xml_defs demo_defs)

lemma bare_resolve_default:
  "resolve demo_env None None None (Some ''my.ptx'') bare_fs =
     (Inr \<lparr>c_target = Some ''html'', c_source = ''source/main.ptx'', c_output = ''output/html'',
           c_publication = Some ''my.ptx'', c_format = Some ''html''\<rparr>,
      bare_fs,
      [Log WARNING ''No project manifest was found.  Run `pretext init` to generate one.'',
       Log DEBUG ''source = source/main.ptx, output = output/html, publisher = my.ptx'',
       Log DEBUG ''Setting the target format to html, taken from manifest for target html''])"
  by (simp add: resolve_defs run_defs xml_defs demo_defs)

lemma require_target_missing:
  "target_xml ext target fs = Inr None \<Longrightarrow>
   require_target ext target fs =
     (Inl (SysExit ''Exiting without completing task.''), fs,
      [Log CRITICAL ''Build target does not exist in project manifest project.ptx''])"
  by (simp add: require_target_def bind_def reading_def log_def emit_def sys_exit_def stop_def)

lemma demo_project_path_bare: "project_path demo_env None bare_fs = Inr None"
  by (simp add: demo_env_def bare_fs_def demo_fs_def isfile_def)

lemma demo_name_target:
  "name_target demo_env (Some ''epub'') None None demo_fs =
     (Inr (Some ''project.ptx'', Some ''epub'', None, None), demo_fs, [])"
  by (simp add: name_target_def locate_manifest_def first_target_def bind_def reading_def ret_def
      demo_env_def demo_fs_def isfile_def)

lemma demo_no_epub: "target_xml demo_env (Some ''epub'') demo_fs = Inr None"
  by (simp add: demo_env_def demo_target_xml_def demo_targets_def demo_manifest_def
      children_named_def)

lemma demo_no_web: "project_target demo_env (Some ''web'') demo_fs = Inr None"
  by (simp add: demo_env_def demo_target_xml_def demo_targets_def demo_manifest_def
      children_named_def)

lemma demo_project_here: "project_path demo_env (Some (abspath demo_env ''.'')) demo_fs = Inr (Some ''/proj'')"
  by (simp add: demo_env_def demo_abspath_def demo_fs_def isfile_def)

lemma resolve_Inr:
  assumes run: "resolve ext target source output publication fs = (Inr cfg, fs1, es)"
  shows "(case source of
            Some s \<Rightarrow> c_source cfg = s
          | None \<Rightarrow>
              if project_path ext None fs = Inr None then c_source cfg = ''source/main.ptx''
              else manifest_value ext fs (c_target cfg) ''source'' = Some (c_source cfg))
       \<and> (case output of
            Some d \<Rightarrow> c_output cfg = d
          | None \<Rightarrow>
              if project_path ext None fs = Inr None
              then c_output cfg = ''output/'' @ (case target of None \<Rightarrow> ''html'' | Some t \<Rightarrow> t)
              else manifest_value ext fs (c_target cfg) ''output-dir'' = Some (c_output cfg))
       \<and> (case publication of
            Some p \<Rightarrow> c_publication cfg = Some p
          | None \<Rightarrow> c_publication cfg = manifest_value ext fs (c_target cfg) ''publication'')
       \<and> (if project_path ext None fs = Inr None
          then c_target cfg = Some (case target of None \<Rightarrow> ''html'' | Some t \<Rightarrow> t)
          else target = None \<or> c_target cfg = target)
       \<and> fs1 = fs"
proof -
  from run obtain manifest t s d fsa ea fsb eb fsc ec s2 fsd ed d2 fse ee p2 fsf ef f eg
    where named: "name_target ext target source output fs = (Inr (manifest, t, s, d), fsa, ea)"
      and req: "require_target ext t fsa = (Inr (), fsb, eb)"
      and dbg: "log DEBUG (''source = '' @ fmt s @ '', output = '' @ fmt d @
                   '', publisher = '' @ fmt publication) fsb = (Inr (), fsc, ec)"
      and src: "pull_source ext t s fsc = (Inr s2, fsd, ed)"
      and out: "pull_output ext t d fsd = (Inr d2, fse, ee)"
      and pub: "pull_publication ext manifest t publication fse = (Inr p2, fsf, ef)"
      and fmt: "pull_format ext t fsf = (Inr f, fs1, eg)"
      and cfg: "cfg = \<lparr>c_target = t, c_source = s2, c_output = d2,
                c_publication = p2, c_format = f\<rparr>"
    unfolding resolve_def by (auto elim!: bind_InrE simp: ret_def)
  have "fsa = fs" using quietD [OF quiet_name_target named] by simp
  moreover have "fsb = fsa" using quietD [OF quiet_require_target req] by simp
  moreover have "fsc = fsb" using quietD [OF quiet_log dbg] by simp
  moreover have "fsd = fsc" using quietD [OF quiet_pull_source src] by simp
  moreover have "fse = fsd" using quietD [OF quiet_pull_output out] by simp
  moreover have "fsf = fse" using quietD [OF quiet_pull_publication pub] by simp
  moreover have "fs1 = fsf" using quietD [OF quiet_pull_format fmt] by simp
  ultimately have same: "fsa = fs" "fsc = fs" "fsd = fs" "fse = fs" "fs1 = fs" by simp_all
  note nt = name_target_Inr [OF named]
  have target: "project_path ext None fs \<noteq> Inr None \<Longrightarrow> target = None \<or> t = target"
    using named unfolding name_target_def
    by (cases "project_path ext None fs"; cases target)
       (auto simp: locate_manifest_def bind_def reading_def ret_def first_target_given
          split: option.splits prod.splits sum.splits)
  show ?thesis
    using nt target pull_source_Inr [OF src [unfolded same]] pull_output_Inr [OF out [unfolded same]]
      pull_publication_result [OF pub [unfolded same]] cfg same
    by (auto split: option.splits if_splits)
qed

subsection \<open>Events and frames of the later stages\<close>

lemma bind_cases:
  assumes "bind m k fs = (r, fs2, es)"
  obtains (halted) h where "m fs = (Inl h, fs2, es)" and "r = Inl h"
  | (went_on) x fs1 es1 es2 where "m fs = (Inr x, fs1, es1)" and "k x fs1 = (r, fs2, es2)"
      and "es = es1 @ es2"
  using assms unfolding bind_def
  by (auto split: prod.splits sum.splits)

lemma emitsD: "emits P m \<Longrightarrow> m fs = (r, fs1, es) \<Longrightarrow> list_all P es"
  by (simp add: emits_def)

lemma emits_quiet: "quiet m \<Longrightarrow> (\<And>lv msg. P (Log lv msg)) \<Longrightarrow> emits P m"
  unfolding emits_def quiet_def list_all_iff
  by (metis is_log.elims(2))

lemma emits_ret: "emits P (ret x)"
  by (simp add: emits_def ret_def)

lemma emits_raise: "emits P (raise e)"
  by (simp add: emits_def raise_def stop_def)

lemma emits_reading: "emits P (reading f)"
  by (auto simp: emits_def reading_def)

lemma emits_log: "P (Log lv msg) \<Longrightarrow> emits P (log lv msg)"
  by (simp add: emits_def log_def emit_def)

lemma emits_bind: "emits P m \<Longrightarrow> (\<And>x. emits P (k x)) \<Longrightarrow> emits P (bind m k)"
  unfolding emits_def
  by (auto elim!: bind_cases)

lemma emits_effect: "P e \<Longrightarrow> emits P (effect e f)"
  by (auto simp: emits_def effect_def split: prod.splits option.splits)

lemma emits_check: "P e \<Longrightarrow> emits P (check e f)"
  by (simp add: check_def emits_effect)

lemma emits_only_if: "emits P m \<Longrightarrow> emits P (only_if b m)"
  by (simp add: only_if_def emits_ret)

lemma quiet_choose_publication: "quiet (choose_publication ext stringparams publication)"
  unfolding choose_publication_def Let_def
  by (auto intro!: quiet_intros split: option.splits)

lemma quiet_webwork_server: "quiet (webwork_server stringparams)"
  unfolding webwork_server_def
  by (auto intro!: quiet_intros split: option.splits)

lemma quiet_warn_not_rebuilt: "quiet (warn_not_rebuilt ext source target_format)"
  unfolding warn_not_rebuilt_def only_if_def
  by (auto intro!: quiet_intros)

lemma emits_validate: "\<not> is_engine (XmlSyntaxCheck source) \<Longrightarrow> emits (\<lambda>e. \<not> is_engine e) (validate ext source)"
  unfolding validate_def
  by (intro emits_bind emits_check) simp_all

lemma emits_ensure_asset_directories:
  "emits (\<lambda>e. \<not> is_engine e) (ensure_asset_directories ext source publication)"
  unfolding ensure_asset_directories_def Let_def ensure_def
  by (auto intro!: emits_bind emits_effect emits_ret emits_raise emits_reading
      split: option.splits list.splits)

lemma emits_clear_output: "emits (\<lambda>e. \<not> is_engine e) (clear_output d)"
  by (auto simp: emits_def clear_output_def split: if_splits)

lemma emits_prepare: "emits (\<lambda>e. \<not> is_engine e) (prepare ext cfg param)"
  unfolding prepare_def Let_def
  by (intro emits_bind emits_validate emits_ensure_asset_directories emits_clear_output
      emits_quiet [OF quiet_choose_publication] emits_ret) simp_all

lemma prepare_engine_free: "prepare ext cfg param fs = (r, fs1, es) \<Longrightarrow> engine_free es"
  using emitsD [OF emits_prepare] by (simp add: engine_free_def)

lemma engine_free_append [simp]: "engine_free (xs @ ys) = (engine_free xs \<and> engine_free ys)"
  by (simp add: engine_free_def)

lemma engine_free_logs: "list_all is_log es \<Longrightarrow> engine_free es"
  unfolding engine_free_def
  by (induction es) (auto elim: is_log.elims)

lemma engine_free_set: "engine_free es = (\<forall>c. Engine c \<notin> set es)"
  unfolding engine_free_def list_all_iff
  by (auto elim: is_engine.elims)

lemma validate_Inr:
  "validate ext source fs = (Inr x, fs1, es) \<Longrightarrow>
   fs1 = fs \<and> es = [XmlSyntaxCheck source, SchemaValidate source]
   \<and> xml_syntax_check ext source fs = None \<and> schema_validate ext source fs = None"
  by (auto simp: validate_def check_def effect_def bind_def split: option.splits)

lemma prepare_Inr:
  assumes "prepare ext cfg param fs = (Inr x, fs1, es)"
  shows "\<exists>pub post. x = (abspath ext (c_source cfg), pub, abspath ext (c_output cfg),
                         stringparams_of param)
           \<and> es = XmlSyntaxCheck (c_source cfg) # SchemaValidate (c_source cfg) # post
           \<and> xml_syntax_check ext (c_source cfg) fs = None
           \<and> schema_validate ext (c_source cfg) fs = None"
  using assms unfolding prepare_def Let_def
  by (auto elim!: bind_InrE dest!: validate_Inr simp: ret_def)

lemma emits_run: "engine_source c = s \<Longrightarrow> emits (given s) (run ext c)"
  unfolding run_def by (rule emits_effect) (simp add: given_def)

lemma emits_if: "emits P a \<Longrightarrow> emits P b \<Longrightarrow> emits P (if c then a else b)"
  by simp

lemma given_log: "given s (Log lv msg)"
  by (simp add: given_def)

lemma emits_dispatch:
  "emits (given source)
     (dispatch ext source publication output stringparams target_format
        webwork diagrams diagrams_format only_assets)"
  unfolding dispatch_def Let_def
  by (intro emits_bind emits_only_if emits_if emits_run emits_quiet [OF quiet_webwork_server]
      emits_quiet [OF quiet_warn_not_rebuilt] given_log) simp_all

lemma dispatch_sources:
  assumes "dispatch ext source publication output stringparams target_format
             webwork diagrams diagrams_format only_assets fs = (r, fs1, es)"
    and "Engine c \<in> set es"
  shows "engine_source c = source"
  using emitsD [OF emits_dispatch assms(1)] assms(2)
  by (auto simp: list_all_iff given_def)

lemmas build_defs = build_def prepare_def validate_def choose_publication_def ensure_def
  ensure_asset_directories_def clear_output_def dispatch_def run_def webwork_server_def
  warn_not_rebuilt_def needs_image_def needs_preview_def

lemmas fs_defs = isfile_def isdir_def inside_def rmtree_def path_join_def dirname_def
  basename_def

lemma demo_build_html:
  "fst (build demo_env (Some ''html'') None None [] None False False ''svg'' False False demo_fs)
     = Inr ()
   \<and> snd (snd (build demo_env (Some ''html'') None None [] None False False ''svg'' False False
                 demo_fs)) =
      [Log DEBUG ''source = None, output = None, publisher = None'',
       Log DEBUG ''No source provided, using source/main.ptx, taken from manifest'',
       Log DEBUG ''No output provided, using output/html, taken from manifest'',
       Log DEBUG
         ''No publisher file provided, using publication/publication.ptx, taken from manifest'',
       Log DEBUG ''Setting the target format to html, taken from manifest for target html'',
       XmlSyntaxCheck ''source/main.ptx'', SchemaValidate ''source/main.ptx'',
       EnsureDirectory ''/proj/source/assets'',
       EnsureDirectory ''/proj/source/generated-assets'',
       RmTree ''/proj/output/html'',
       Log WARNING
         ''There are generated images (<latex-image/>, <asymptote/>, or <sageplot/>) or in source, but these will not be (re)built. Run pretext build with the `-d` flag if updates are needed.'',
       Engine (Html ''/proj/source/main.ptx'' ''/proj/publication/publication.ptx''
                 ''/proj/output/html'' [])]"
  by (simp add: build_defs resolve_defs run_defs xml_defs demo_defs fs_defs stringparams_of_def
      demo_fs_def)

lemma tracksD: "tracks Q I m \<Longrightarrow> m fs = (r, fs1, es) \<Longrightarrow> list_all Q es \<Longrightarrow> I fs \<Longrightarrow> I fs1"
  unfolding tracks_def by blast

lemma tracks_quiet: "quiet m \<Longrightarrow> tracks Q I m"
  by (auto simp: tracks_def quiet_def)

lemma tracks_bind: "tracks Q I m \<Longrightarrow> (\<And>x. tracks Q I (k x)) \<Longrightarrow> tracks Q I (bind m k)"
  unfolding tracks_def
  by (fastforce elim!: bind_cases)

lemma tracks_effect: "(\<And>s. Q e \<Longrightarrow> I s \<Longrightarrow> I (snd (f s))) \<Longrightarrow> tracks Q I (effect e f)"
  unfolding tracks_def effect_def
  by (auto split: prod.splits option.splits) (metis snd_conv)+

lemma tracks_ret: "tracks Q I (ret x)"
  by (simp add: tracks_quiet quiet_ret)

lemma tracks_raise: "tracks Q I (raise e)"
  by (simp add: tracks_quiet quiet_raise)

lemma tracks_reading: "tracks Q I (reading f)"
  by (simp add: tracks_quiet quiet_reading)

lemma tracks_check: "tracks Q I (check e f)"
  unfolding check_def by (rule tracks_effect) simp

lemma tracks_only_if: "tracks Q I m \<Longrightarrow> tracks Q I (only_if b m)"
  by (simp add: only_if_def tracks_quiet quiet_ret)

lemma tracks_if: "tracks Q I a \<Longrightarrow> tracks Q I b \<Longrightarrow> tracks Q I (if c then a else b)"
  by simp

lemma tracks_validate: "tracks Q I (validate ext source)"
  unfolding validate_def by (intro tracks_bind tracks_check)

lemma tracks_ensure_asset_directories:
  assumes "\<And>d s. Q (EnsureDirectory d) \<Longrightarrow> I s \<Longrightarrow> I (snd (ensure_directory ext d s))"
  shows "tracks Q I (ensure_asset_directories ext source publication)"
  unfolding ensure_asset_directories_def Let_def ensure_def
  by (auto intro!: tracks_bind tracks_effect assms tracks_ret tracks_raise tracks_reading
      split: option.splits list.splits)

lemma tracks_clear_output:
  assumes "\<And>s. Q (RmTree d) \<Longrightarrow> I s \<Longrightarrow> I (rmtree d s)"
  shows "tracks Q I (clear_output d)"
  using assms by (auto simp: tracks_def clear_output_def split: if_splits)

lemma tracks_prepare:
  assumes "\<And>d s. Q (EnsureDirectory d) \<Longrightarrow> I s \<Longrightarrow> I (snd (ensure_directory ext d s))"
    and "\<And>d s. Q (RmTree d) \<Longrightarrow> I s \<Longrightarrow> I (rmtree d s)"
  shows "tracks Q I (prepare ext cfg param)"
  unfolding prepare_def Let_def
  by (intro tracks_bind tracks_validate tracks_ensure_asset_directories tracks_clear_output
      tracks_quiet [OF quiet_choose_publication] tracks_quiet [OF quiet_ret] assms)

lemma tracks_dispatch:
  assumes "\<And>c s. Q (Engine c) \<Longrightarrow> I s \<Longrightarrow> I (snd (engine ext c s))"
  shows "tracks Q I (dispatch ext source publication output stringparams target_format
           webwork diagrams diagrams_format only_assets)"
  unfolding dispatch_def Let_def run_def
  by (intro tracks_bind tracks_only_if tracks_if tracks_effect assms
      tracks_quiet [OF quiet_webwork_server] tracks_quiet [OF quiet_warn_not_rebuilt])

lemma tracks_build:
  assumes "\<And>d s. Q (EnsureDirectory d) \<Longrightarrow> I s \<Longrightarrow> I (snd (ensure_directory ext d s))"
    and "\<And>d s. Q (RmTree d) \<Longrightarrow> I s \<Longrightarrow> I (rmtree d s)"
    and "\<And>c s. Q (Engine c) \<Longrightarrow> I s \<Longrightarrow> I (snd (engine ext c s))"
  shows "tracks Q I (build ext target source output param publication webwork diagrams
           diagrams_format only_assets pdf)"
  unfolding build_def
  by (auto intro!: tracks_bind tracks_quiet [OF quiet_resolve] tracks_prepare tracks_dispatch assms)

lemma prepare_clears:
  assumes run: "prepare ext cfg param fs = (Inr x, fs1, es)"
    and keep: "\<And>d s q. isdir s q \<Longrightarrow> isdir (snd (ensure_directory ext d s)) q"
    and dir: "isdir fs (abspath ext (c_output cfg))"
  shows "\<exists>es1. es = es1 @ [RmTree (abspath ext (c_output cfg))]
           \<and> (\<forall>p. inside (abspath ext (c_output cfg)) p \<longrightarrow> fs1 p = None)"
proof -
  let ?out = "abspath ext (c_output cfg)"
  from run obtain fsa e1 pub fsb e2 fsc e3 e4
    where v: "validate ext (c_source cfg) fs = (Inr (), fsa, e1)"
      and c: "choose_publication ext (stringparams_of param) (c_publication cfg) fsa
                = (Inr pub, fsb, e2)"
      and a: "ensure_asset_directories ext (c_source cfg) pub fsb = (Inr (), fsc, e3)"
      and r: "clear_output ?out fsc = (Inr (), fs1, e4)"
      and es: "es = e1 @ e2 @ e3 @ e4"
    unfolding prepare_def Let_def
    by (auto elim!: bind_InrE simp: ret_def)
  from validate_Inr [OF v] have "fsa = fs" by simp
  moreover from quietD [OF quiet_choose_publication c] have "fsb = fsa" by simp
  ultimately have "isdir fsb ?out" using dir by simp
  moreover have "tracks (\<lambda>e. True) (\<lambda>s. isdir s ?out)
                   (ensure_asset_directories ext (c_source cfg) pub)"
    by (rule tracks_ensure_asset_directories) (rule keep)
  ultimately have "isdir fsc ?out"
    using tracksD [where Q = "\<lambda>e. True" and I = "\<lambda>s. isdir s ?out" and m = "ensure_asset_directories ext (c_source cfg) pub", OF _ a]
    by (simp add: list_all_iff)
  with r have "e4 = [RmTree ?out]" and "fs1 = rmtree ?out fsc"
    by (simp_all add: clear_output_def)
  with es show ?thesis by (simp add: rmtree_def)
qed

lemma choose_publication_publisher:
  "map_of sp ''publisher'' = Some v \<Longrightarrow>
   choose_publication ext sp resolved fs =
     (if isfile fs (abspath ext v) then (Inr (abspath ext v), fs, [])
      else (Inr (path_join (path_join (static_dir ext) ''templates'') ''publication.ptx''), fs,
            [Log ERROR
               (''You or the manifest supplied '' @ v @
                '' as a publisher file, but it doesn't exist at that location.  Will try to build anyway.'')]))"
  by (simp add: choose_publication_def run_defs)

lemma choose_publication_missing_file:
  "map_of sp ''publisher'' = None \<Longrightarrow> \<not> isfile fs (abspath ext p) \<Longrightarrow>
   choose_publication ext sp (Some p) fs = (Inl (Uncaught (KeyError ''publisher'')), fs, [])"
  by (simp add: choose_publication_def run_defs)

lemma choose_publication_none:
  "map_of sp ''publisher'' = None \<Longrightarrow>
   choose_publication ext sp None fs = (Inl (Uncaught TypeError), fs, [])"
  by (simp add: choose_publication_def run_defs)

lemma webwork_server_default:
  "map_of sp ''server'' = None \<Longrightarrow>
   webwork_server sp fs =
     (Inr ''https://webwork-ptx.aimath.org'', fs,
      [Log WARNING ''No server name, 'server'.  Using default https://webwork-ptx.aimath.org''])"
  by (simp add: webwork_server_def run_defs)

lemmas eval_defs = build_defs resolve_defs run_defs xml_defs demo_defs fs_defs stringparams_of_def
  demo_fs_def

lemma demo_resolve_plain:
  "resolve demo_env (Some ''html'') None None None demo_fs =
     (Inr \<lparr>c_target = Some ''html'', c_source = ''source/main.ptx'', c_output = ''output/html'',
           c_publication = Some ''publication/publication.ptx'', c_format = Some ''html''\<rparr>,
      demo_fs,
      [Log DEBUG ''source = None, output = None, publisher = None'',
       Log DEBUG ''No source provided, using source/main.ptx, taken from manifest'',
       Log DEBUG ''No output provided, using output/html, taken from manifest'',
       Log DEBUG
         ''No publisher file provided, using publication/publication.ptx, taken from manifest'',
       Log DEBUG ''Setting the target format to html, taken from manifest for target html''])"
  by (simp add: resolve_defs run_defs xml_defs demo_defs)

lemma demo_abspath_output: "abspath demo_env ''output/html'' = ''/proj/output/html''"
  by (simp add: demo_defs)

lemma demo_ensure_keeps_dirs: "isdir s q \<Longrightarrow> isdir (snd (ensure_directory demo_env d s)) q"
  by (auto simp: demo_env_def isdir_def split: option.splits node.splits)

section \<open>The claims\<close>

subsection \<open>Configuration of a build\<close>

text \<open>
  C1. Lines 134 to 188 merge the manifest with the command line. Whenever they run
  through with a configuration \<open>cfg\<close>:
  \<^item> a source, output or publication given on the command line is in \<open>cfg\<close> as given;
  \<^item> a source or output that was not given is, with a manifest, the stripped text of the
    child \<^verbatim>\<open>source\<close> or \<^verbatim>\<open>output-dir\<close> of the manifest's target, and a publication that
    was not given is the stripped text of the child \<^verbatim>\<open>publication\<close> (none when the
    target has no such child);
  \<^item> without a manifest the target is the one given or else \<^verbatim>\<open>html\<close>, the source
    defaults to \<^verbatim>\<open>source/main.ptx\<close> and the output to \<^verbatim>\<open>output/\<close> followed by the target;
  \<^item> no file is touched.
  And they do run through for every invocation that is \<open>ready\<close>.
\<close>

theorem resolve_merges_manifest_and_command_line:
  "(resolve ext target source output publication fs = (Inr cfg, fs1, es) \<longrightarrow>
      (case source of
         Some s \<Rightarrow> c_source cfg = s
       | None \<Rightarrow>
           if project_path ext None fs = Inr None then c_source cfg = ''source/main.ptx''
           else manifest_value ext fs (c_target cfg) ''source'' = Some (c_source cfg))
    \<and> (case output of
         Some d \<Rightarrow> c_output cfg = d
       | None \<Rightarrow>
           if project_path ext None fs = Inr None
           then c_output cfg = ''output/'' @ (case target of None \<Rightarrow> ''html'' | Some t \<Rightarrow> t)
           else manifest_value ext fs (c_target cfg) ''output-dir'' = Some (c_output cfg))
    \<and> (case publication of
         Some p \<Rightarrow> c_publication cfg = Some p
       | None \<Rightarrow> c_publication cfg = manifest_value ext fs (c_target cfg) ''publication'')
    \<and> (if project_path ext None fs = Inr None
       then c_target cfg = Some (case target of None \<Rightarrow> ''html'' | Some t \<Rightarrow> t)
       else target = None \<or> c_target cfg = target)
    \<and> fs1 = fs)
   \<and> (ready ext fs target source output \<longrightarrow>
      (\<exists>cfg es. resolve ext target source output publication fs = (Inr cfg, fs, es)))"
  using resolve_Inr [of ext target source "output" publication fs cfg fs1 es]
    resolve_ready [of ext fs target source "output" publication]
  by blast

theorem resolve_merges_manifest_and_command_line_witness:
  "resolve demo_env (Some ''html'') None (Some ''out'') None demo_fs =
     (Inr \<lparr>c_target = Some ''html'', c_source = ''source/main.ptx'', c_output = ''out'',
           c_publication = Some ''publication/publication.ptx'', c_format = Some ''html''\<rparr>,
      demo_fs,
      [Log DEBUG ''source = None, output = out, publisher = None'',
       Log DEBUG ''No source provided, using source/main.ptx, taken from manifest'',
       Log DEBUG
         ''No publisher file provided, using publication/publication.ptx, taken from manifest'',
       Log DEBUG ''Setting the target format to html, taken from manifest for target html''])
   \<and> manifest_value demo_env demo_fs (Some ''html'') ''source'' = Some ''source/main.ptx''
   \<and> manifest_value demo_env demo_fs (Some ''html'') ''publication''
       = Some ''publication/publication.ptx''
   \<and> ready demo_env demo_fs (Some ''html'') None (Some ''out'')
   \<and> project_path demo_env None bare_fs = Inr None
   \<and> ready demo_env bare_fs None None None
   \<and> resolve demo_env None None None (Some ''my.ptx'') bare_fs =
     (Inr \<lparr>c_target = Some ''html'', c_source = ''source/main.ptx'', c_output = ''output/html'',
           c_publication = Some ''my.ptx'', c_format = Some ''html''\<rparr>,
      bare_fs,
      [Log WARNING ''No project manifest was found.  Run `pretext init` to generate one.'',
       Log DEBUG ''source = source/main.ptx, output = output/html, publisher = my.ptx'',
       Log DEBUG ''Setting the target format to html, taken from manifest for target html''])"
proof -
  have 1: "ready demo_env demo_fs (Some ''html'') None (Some ''out'')"
    by (simp add: ready_def has_target_def manifest_value_def xml_defs demo_defs)
  have 2: "ready demo_env bare_fs None None None"
    by (simp add: ready_def has_target_def manifest_value_def xml_defs demo_defs)
  note t = resolve_merges_manifest_and_command_line
  from t [of demo_env "Some ''html''" None "Some ''out''" None demo_fs
           "\<lparr>c_target = Some ''html'', c_source = ''source/main.ptx'', c_output = ''out'',
             c_publication = Some ''publication/publication.ptx'', c_format = Some ''html''\<rparr>"]
    demo_resolve_html
  have 3: "manifest_value demo_env demo_fs (Some ''html'') ''source'' = Some ''source/main.ptx''
     \<and> manifest_value demo_env demo_fs (Some ''html'') ''publication''
         = Some ''publication/publication.ptx''"
    by (simp add: demo_env_def)
  show ?thesis
    using 1 2 3 demo_resolve_html bare_resolve_default demo_project_path_bare by simp
qed

text \<open>
  C2. Without a manifest, a target given as anything but \<^verbatim>\<open>html\<close> or \<^verbatim>\<open>latex\<close> ends the
  build at line 149: a warning and a critical record are logged, \<^verbatim>\<open>sys.exit\<close> is called,
  no file is touched and nothing else is called, the engine least of all.
\<close>

theorem build_without_manifest_other_target:
  assumes "project_path ext None fs = Inr None"
    and "target = Some t" and "t \<noteq> ''html''" and "t \<noteq> ''latex''"
  shows \<open>build ext target source output param publication webwork diagrams diagrams_format
           only_assets pdf fs =
         (Inl (SysExit ''`pretext build` did not complete.  Please try again.''), fs,
          [Log WARNING ''No project manifest was found.  Run `pretext init` to generate one.'',
           Log CRITICAL
             ''Without a project manifest, you can only build "html" or "latex".  Exiting...''])\<close>
  using assms
  by (simp add: build_def resolve_def name_target_def locate_manifest_def bind_def reading_def
      log_def emit_def sys_exit_def stop_def)

theorem build_without_manifest_other_target_witness:
  \<open>project_path demo_env None bare_fs = Inr None \<and>
   build demo_env (Some ''epub'') None None [] None False False ''svg'' False False bare_fs =
     (Inl (SysExit ''`pretext build` did not complete.  Please try again.''), bare_fs,
      [Log WARNING ''No project manifest was found.  Run `pretext init` to generate one.'',
       Log CRITICAL
         ''Without a project manifest, you can only build "html" or "latex".  Exiting...''])\<close>
  using build_without_manifest_other_target [OF demo_project_path_bare, of "Some ''epub''" "''epub''"]
    demo_project_path_bare
  by simp

text \<open>
  C3. When lines 134 to 157 have settled on the target \<open>t\<close> and the manifest has no
  such target, the build ends at line 162 with a critical log record and \<^verbatim>\<open>sys.exit\<close>:
  until then it has only written to the log, no file is touched and no engine is called.
\<close>

theorem build_target_not_in_manifest:
  assumes named: "name_target ext target source output fs = (Inr (manifest, t, s, d), fs1, es1)"
    and missing: "target_xml ext t fs = Inr None"
  shows "build ext target source output param publication webwork diagrams diagrams_format
           only_assets pdf fs =
         (Inl (SysExit ''Exiting without completing task.''), fs,
          es1 @ [Log CRITICAL ''Build target does not exist in project manifest project.ptx''])
         \<and> list_all is_log es1"
proof -
  from quietD [OF quiet_name_target named] have same: "fs1 = fs" and logs: "list_all is_log es1"
    by simp_all
  have "resolve ext target source output publication fs =
        (Inl (SysExit ''Exiting without completing task.''), fs,
         es1 @ [Log CRITICAL ''Build target does not exist in project manifest project.ptx''])"
    using named [unfolded same] require_target_missing [OF missing]
    by (simp add: resolve_def bind_def)
  then show ?thesis
    using logs by (simp add: build_def bind_Inl)
qed

theorem build_target_not_in_manifest_witness:
  "build demo_env (Some ''epub'') None None [] None False False ''svg'' False False demo_fs =
     (Inl (SysExit ''Exiting without completing task.''), demo_fs,
      [Log CRITICAL ''Build target does not exist in project manifest project.ptx''])"
  using build_target_not_in_manifest [OF demo_name_target demo_no_epub]
  by simp

subsection \<open>Failing and falling back inside a build\<close>

text \<open>
  C4. A publication file that does not exist is meant to be replaced by the bundled
  \<^verbatim>\<open>publication.ptx\<close> (lines 203 to 206), but line 204 formats its message from
  \<^verbatim>\<open>stringparams['publisher']\<close>. When the missing file was named by the manifest or by
  \<^verbatim>\<open>-p\<close> and no \<^verbatim>\<open>--param publisher:...\<close> was given, that lookup raises \<^verbatim>\<open>KeyError\<close>: the
  build of the target \<^verbatim>\<open>html\<close> on a disk without \<^verbatim>\<open>publication/publication.ptx\<close> ends
  with the uncaught exception after validation, with no message about a fallback and no
  engine call. (The other half of the claim holds, see \<open>webwork_server_default\<close>; and
  with the parameter given the fallback works, see \<open>choose_publication_publisher\<close>.)
\<close>

theorem build_missing_publication_raises:
  "build demo_env (Some ''html'') None None [] None False False ''svg'' False False unpublished_fs
   = (Inl (Uncaught (KeyError ''publisher'')), unpublished_fs,
      [Log DEBUG ''source = None, output = None, publisher = None'',
       Log DEBUG ''No source provided, using source/main.ptx, taken from manifest'',
       Log DEBUG ''No output provided, using output/html, taken from manifest'',
       Log DEBUG
         ''No publisher file provided, using publication/publication.ptx, taken from manifest'',
       Log DEBUG ''Setting the target format to html, taken from manifest for target html'',
       XmlSyntaxCheck ''source/main.ptx'', SchemaValidate ''source/main.ptx''])"
  by (simp add: eval_defs unpublished_fs_def)

subsection \<open>What a build does to the disk, and when\<close>

text \<open>
  C5, as the code has it. For any path \<open>m\<close>, the manifest's in particular: what is stored
  under \<open>m\<close> after a build is what was stored before, provided that no engine call and no
  \<^verbatim>\<open>utils.ensure_directory\<close> call the build made changes it, and that \<open>m\<close> does not lie
  inside a directory the build removed (the output directory of lines 220 to 222). The
  build itself never writes to a file.
\<close>

theorem build_frame:
  assumes run: "build ext target source output param publication webwork diagrams
                  diagrams_format only_assets pdf fs = (r, fs1, es)"
    and eng: "\<And>c s. Engine c \<in> set es \<Longrightarrow> snd (engine ext c s) m = s m"
    and ens: "\<And>d s. EnsureDirectory d \<in> set es \<Longrightarrow> snd (ensure_directory ext d s) m = s m"
    and out: "\<And>d. RmTree d \<in> set es \<Longrightarrow> \<not> inside d m"
  shows "fs1 m = fs m"
proof -
  have "tracks (\<lambda>e. e \<in> set es) (\<lambda>s. s m = fs m)
          (build ext target source output param publication webwork diagrams
             diagrams_format only_assets pdf)"
    by (rule tracks_build) (simp_all add: eng ens out rmtree_def)
  from tracksD [OF this run] show ?thesis
    by (simp add: list_all_iff)
qed

theorem build_frame_witness:
  "fst (snd (build demo_env (Some ''html'') None None [] None False False ''svg''
               False False demo_fs)) ''/proj/project.ptx'' = Some (File ''<project/>'')"
proof -
  let ?b = "build demo_env (Some ''html'') None None [] None False False ''svg''
              False False demo_fs"
  have run: "?b = (fst ?b, fst (snd ?b), snd (snd ?b))" by simp
  have es: "snd (snd ?b) =
      [Log DEBUG ''source = None, output = None, publisher = None'',
       Log DEBUG ''No source provided, using source/main.ptx, taken from manifest'',
       Log DEBUG ''No output provided, using output/html, taken from manifest'',
       Log DEBUG
         ''No publisher file provided, using publication/publication.ptx, taken from manifest'',
       Log DEBUG ''Setting the target format to html, taken from manifest for target html'',
       XmlSyntaxCheck ''source/main.ptx'', SchemaValidate ''source/main.ptx'',
       EnsureDirectory ''/proj/source/assets'',
       EnsureDirectory ''/proj/source/generated-assets'',
       RmTree ''/proj/output/html'',
       Log WARNING
         ''There are generated images (<latex-image/>, <asymptote/>, or <sageplot/>) or in source, but these will not be (re)built. Run pretext build with the `-d` flag if updates are needed.'',
       Engine (Html ''/proj/source/main.ptx'' ''/proj/publication/publication.ptx''
                 ''/proj/output/html'' [])]"
    using demo_build_html by simp
  have "fst (snd ?b) ''/proj/project.ptx'' = demo_fs ''/proj/project.ptx''"
  proof (rule build_frame [OF run])
    fix c s
    assume "Engine c \<in> set (snd (snd ?b))"
    then have "c = Html ''/proj/source/main.ptx'' ''/proj/publication/publication.ptx''
                 ''/proj/output/html'' []"
      by (simp add: es)
    then show "snd (engine demo_env c s) ''/proj/project.ptx'' = s ''/proj/project.ptx''"
      by (simp add: demo_defs)
  next
    fix d s
    assume "EnsureDirectory d \<in> set (snd (snd ?b))"
    then have "d = ''/proj/source/assets'' \<or> d = ''/proj/source/generated-assets''"
      by (simp add: es)
    then show "snd (ensure_directory demo_env d s) ''/proj/project.ptx'' = s ''/proj/project.ptx''"
      by (auto simp: demo_defs)
  next
    fix d
    assume "RmTree d \<in> set (snd (snd ?b))"
    then have "d = ''/proj/output/html''"
      by (simp add: es)
    then show "\<not> inside d ''/proj/project.ptx''"
      by (simp add: inside_def)
  qed
  then show ?thesis by (simp add: demo_fs_def)
qed

text \<open>
  C5 as stated fails: \<^verbatim>\<open>pretext build html -o .\<close> in the project directory resolves the
  output directory to the project directory itself and removes it, manifest included.
\<close>

theorem build_removes_manifest_inside_output:
  "demo_fs ''/proj/project.ptx'' = Some (File ''<project/>'')
   \<and> fst (snd (build demo_env (Some ''html'') None (Some ''.'') [] None False False ''svg''
                  False False demo_fs)) ''/proj/project.ptx'' = None"
  by (simp add: eval_defs)

text \<open>
  C6. Whenever a build calls the engine, lines 134 to 188 had resolved a configuration
  writing only to the log, then \<^verbatim>\<open>utils.xml_syntax_check\<close> and \<^verbatim>\<open>utils.schema_validate\<close>
  were called on its source, in this order, and both returned; no engine call comes before
  them, and every engine call is given that same source file (made absolute).
\<close>

theorem validation_precedes_engine:
  assumes run: "build ext target source output param publication webwork diagrams
                  diagrams_format only_assets pdf fs = (r, fs1, es)"
    and called: "Engine c \<in> set es"
  shows "\<exists>cfg pre post.
           resolve ext target source output publication fs = (Inr cfg, fs, pre)
         \<and> es = pre @ XmlSyntaxCheck (c_source cfg) # SchemaValidate (c_source cfg) # post
         \<and> engine_free pre
         \<and> xml_syntax_check ext (c_source cfg) fs = None
         \<and> schema_validate ext (c_source cfg) fs = None
         \<and> engine_source c = abspath ext (c_source cfg)"
  using run unfolding build_def
proof (cases rule: bind_cases)
  case (halted h)
  from quietD [OF quiet_resolve halted(1)] called show ?thesis
    by (auto dest: engine_free_logs simp: engine_free_set)
next
  case (went_on cfg fs2 pre rest)
  from quietD [OF quiet_resolve went_on(1)] have same: "fs2 = fs" and pre: "engine_free pre"
    by (auto dest: engine_free_logs)
  from went_on(2) show ?thesis
  proof (cases rule: bind_cases)
    case (halted h)
    from prepare_engine_free [OF halted(1)] pre called went_on(3)
    show ?thesis by (auto simp: engine_free_set)
  next
    case inner: (went_on x fs3 es3 es4)
    from prepare_Inr [OF inner(1)] obtain pub post where
      x: "x = (abspath ext (c_source cfg), pub, abspath ext (c_output cfg), stringparams_of param)"
      and es3: "es3 = XmlSyntaxCheck (c_source cfg) # SchemaValidate (c_source cfg) # post"
      and ok: "xml_syntax_check ext (c_source cfg) fs2 = None"
        "schema_validate ext (c_source cfg) fs2 = None"
      by blast
    from prepare_engine_free [OF inner(1)] pre called went_on(3) inner(3)
    have "Engine c \<in> set es4" by (auto simp: engine_free_set)
    with inner(2) x have "engine_source c = abspath ext (c_source cfg)"
      by (auto dest: dispatch_sources)
    with went_on(1,3) inner(3) es3 ok pre same show ?thesis by auto
  qed
qed

theorem validation_precedes_engine_witness:
  "Engine (Html ''/proj/source/main.ptx'' ''/proj/publication/publication.ptx''
             ''/proj/output/html'' [])
     \<in> set (snd (snd (build demo_env (Some ''html'') None None [] None False False ''svg''
                          False False demo_fs)))
   \<and> (\<exists>cfg pre post.
         resolve demo_env (Some ''html'') None None None demo_fs = (Inr cfg, demo_fs, pre)
       \<and> snd (snd (build demo_env (Some ''html'') None None [] None False False ''svg''
                      False False demo_fs))
           = pre @ XmlSyntaxCheck (c_source cfg) # SchemaValidate (c_source cfg) # post
       \<and> engine_free pre
       \<and> xml_syntax_check demo_env (c_source cfg) demo_fs = None
       \<and> schema_validate demo_env (c_source cfg) demo_fs = None
       \<and> ''/proj/source/main.ptx'' = abspath demo_env (c_source cfg))"
proof -
  let ?b = "build demo_env (Some ''html'') None None [] None False False ''svg''
              False False demo_fs"
  have run: "?b = (fst ?b, fst (snd ?b), snd (snd ?b))" by simp
  have called: "Engine (Html ''/proj/source/main.ptx'' ''/proj/publication/publication.ptx''
             ''/proj/output/html'' []) \<in> set (snd (snd ?b))"
    using demo_build_html by simp
  from validation_precedes_engine [OF run called] called show ?thesis by simp
qed

text \<open>
  C8. Let the resolved output directory exist when the build starts, and let
  \<^verbatim>\<open>utils.ensure_directory\<close> remove no directory. Then either the build ends during lines
  190 to 219 without any engine call, or lines 190 to 222 end with the removal of the
  output directory, leaving nothing stored in or below it, no engine has been called until
  then, and only then lines 224 to 260 call the engine, whatever their outcome \<open>r\<close>.
\<close>

theorem output_directory_removed_first:
  assumes res: "resolve ext target source output publication fs = (Inr cfg, fs0, es0)"
    and dir: "isdir fs (abspath ext (c_output cfg))"
    and keep: "\<And>d s q. isdir s q \<Longrightarrow> isdir (snd (ensure_directory ext d s)) q"
    and run: "build ext target source output param publication webwork diagrams
                diagrams_format only_assets pdf fs = (r, fs2, es)"
  shows "(\<exists>h es1. prepare ext cfg param fs = (Inl h, fs2, es1) \<and> r = Inl h
                 \<and> es = es0 @ es1 \<and> engine_free es)
       \<or> (\<exists>src pub sp fs1 es1 es2.
             prepare ext cfg param fs =
               (Inr (src, pub, abspath ext (c_output cfg), sp), fs1,
                es1 @ [RmTree (abspath ext (c_output cfg))])
           \<and> engine_free (es0 @ es1)
           \<and> (\<forall>p. inside (abspath ext (c_output cfg)) p \<longrightarrow> fs1 p = None)
           \<and> dispatch ext src pub (abspath ext (c_output cfg)) sp (c_format cfg)
                webwork diagrams diagrams_format only_assets fs1 = (r, fs2, es2)
           \<and> es = es0 @ es1 @ RmTree (abspath ext (c_output cfg)) # es2)"
proof -
  let ?out = "abspath ext (c_output cfg)"
  from quietD [OF quiet_resolve res] have same: "fs0 = fs" and free0: "engine_free es0"
    by (auto dest: engine_free_logs)
  obtain rp fsp esp where p: "prepare ext cfg param fs = (rp, fsp, esp)"
    by (cases "prepare ext cfg param fs") auto
  note freep = prepare_engine_free [OF p]
  show ?thesis
  proof (cases rp)
    case (Inl h)
    with run res p same free0 freep show ?thesis
      by (auto simp: build_def bind_def)
  next
    case (Inr x)
    from prepare_Inr [OF p [unfolded Inr]] obtain pub where
      x: "x = (abspath ext (c_source cfg), pub, ?out, stringparams_of param)" by blast
    from prepare_clears [OF p [unfolded Inr] keep dir] obtain es1 where
      esp: "esp = es1 @ [RmTree ?out]" and gone: "\<forall>p. inside ?out p \<longrightarrow> fsp p = None"
      by blast
    obtain es2 where
      d: "dispatch ext (abspath ext (c_source cfg)) pub ?out (stringparams_of param) (c_format cfg)
            webwork diagrams diagrams_format only_assets fsp = (r, fs2, es2)"
      and es: "es = es0 @ esp @ es2"
      using run res p same Inr x
      by (auto simp: build_def bind_def split: prod.splits)
    from freep esp have "engine_free es1" by simp
    with p Inr x esp gone d es free0 show ?thesis by auto
  qed
qed

theorem output_directory_removed_first_witness:
  "isdir demo_fs ''/proj/output/html''
   \<and> demo_fs ''/proj/output/html/index.html'' = Some (File ''old'')
   \<and> (\<exists>src pub sp fs1 es1 es2.
         prepare demo_env
           \<lparr>c_target = Some ''html'', c_source = ''source/main.ptx'', c_output = ''output/html'',
             c_publication = Some ''publication/publication.ptx'', c_format = Some ''html''\<rparr>
           [] demo_fs =
           (Inr (src, pub, ''/proj/output/html'', sp), fs1, es1 @ [RmTree ''/proj/output/html''])
       \<and> engine_free es1
       \<and> fs1 ''/proj/output/html/index.html'' = None
       \<and> Engine (Html ''/proj/source/main.ptx'' ''/proj/publication/publication.ptx''
                    ''/proj/output/html'' []) \<in> set es2
       \<and> snd (snd (build demo_env (Some ''html'') None None [] None False False ''svg''
                      False False demo_fs))
           = [Log DEBUG ''source = None, output = None, publisher = None'',
              Log DEBUG ''No source provided, using source/main.ptx, taken from manifest'',
              Log DEBUG ''No output provided, using output/html, taken from manifest'',
              Log DEBUG
                ''No publisher file provided, using publication/publication.ptx, taken from manifest'',
              Log DEBUG
                ''Setting the target format to html, taken from manifest for target html'']
             @ es1 @ RmTree ''/proj/output/html'' # es2)"
proof -
  let ?b = "build demo_env (Some ''html'') None None [] None False False ''svg''
              False False demo_fs"
  let ?cfg = "\<lparr>c_target = Some ''html'', c_source = ''source/main.ptx'',
                c_output = ''output/html'',
                c_publication = Some ''publication/publication.ptx'',
                c_format = Some ''html''\<rparr>"
  have run: "?b = (fst ?b, fst (snd ?b), snd (snd ?b))" by simp
  have dir: "isdir demo_fs ''/proj/output/html''"
    by (simp add: demo_fs_def isdir_def)
  then have dir': "isdir demo_fs (abspath demo_env (c_output ?cfg))"
    by (simp add: demo_abspath_output)
  have old: "demo_fs ''/proj/output/html/index.html'' = Some (File ''old'')"
    by (simp add: demo_fs_def)
  have there: "inside ''/proj/output/html'' ''/proj/output/html/index.html''"
    by (simp add: inside_def)
  have ok: "fst ?b = Inr ()" using demo_build_html by simp
  have called: "Engine (Html ''/proj/source/main.ptx'' ''/proj/publication/publication.ptx''
                    ''/proj/output/html'' []) \<in> set (snd (snd ?b))"
    using demo_build_html by simp
  note t = output_directory_removed_first
             [OF demo_resolve_plain dir' demo_ensure_keeps_dirs run]
  let ?es0 = "[Log DEBUG ''source = None, output = None, publisher = None'',
              Log DEBUG ''No source provided, using source/main.ptx, taken from manifest'',
              Log DEBUG ''No output provided, using output/html, taken from manifest'',
              Log DEBUG
                ''No publisher file provided, using publication/publication.ptx, taken from manifest'',
              Log DEBUG
                ''Setting the target format to html, taken from manifest for target html'']"
  from t ok obtain src pub sp fs1 es1 es2 where
      p: "prepare demo_env ?cfg [] demo_fs =
            (Inr (src, pub, ''/proj/output/html'', sp), fs1, es1 @ [RmTree ''/proj/output/html''])"
    and free: "engine_free (?es0 @ es1)"
    and gone: "\<forall>p. inside ''/proj/output/html'' p \<longrightarrow> fs1 p = None"
    and es: "snd (snd ?b) = ?es0 @ es1 @ RmTree ''/proj/output/html'' # es2"
    by (auto simp: demo_abspath_output)
  from free have free1: "engine_free es1" by (simp add: engine_free_def)
  from gone there have none: "fs1 ''/proj/output/html/index.html'' = None" by blast
  from called es free have in2: "Engine (Html ''/proj/source/main.ptx''
      ''/proj/publication/publication.ptx'' ''/proj/output/html'' []) \<in> set es2"
    by (auto simp: engine_free_set)
  from p free1 none in2 es have
    "\<exists>src pub sp fs1 es1 es2.
         prepare demo_env ?cfg [] demo_fs =
           (Inr (src, pub, ''/proj/output/html'', sp), fs1, es1 @ [RmTree ''/proj/output/html''])
       \<and> engine_free es1
       \<and> fs1 ''/proj/output/html/index.html'' = None
       \<and> Engine (Html ''/proj/source/main.ptx'' ''/proj/publication/publication.ptx''
                    ''/proj/output/html'' []) \<in> set es2
       \<and> snd (snd ?b) = ?es0 @ es1 @ RmTree ''/proj/output/html'' # es2"
    by blast
  with dir old show ?thesis by blast
qed

text \<open>
  C10. With a string parameter \<^verbatim>\<open>publisher\<close> of value \<open>v\<close>, the publication file of
  lines 200 to 207 is \<open>v\<close> made absolute (or the bundled template when that is no file),
  whatever publication lines 134 to 188 had resolved from \<^verbatim>\<open>-p\<close> and the manifest; lines
  190 to 222 do not depend on the resolved publication, and the build is the same as one
  that forgets it after line 188.
\<close>

theorem publisher_param_overrides:
  assumes "map_of (stringparams_of param) ''publisher'' = Some v"
  shows "choose_publication ext (stringparams_of param) resolved fs =
           (if isfile fs (abspath ext v) then (Inr (abspath ext v), fs, [])
            else (Inr (path_join (path_join (static_dir ext) ''templates'') ''publication.ptx''),
                  fs,
                  [Log ERROR
                     (''You or the manifest supplied '' @ v @
                      '' as a publisher file, but it doesn't exist at that location.  Will try to build anyway.'')]))
       \<and> prepare ext (cfg\<lparr>c_publication := resolved\<rparr>) param fs = prepare ext cfg param fs
       \<and> build ext target source output param publication webwork diagrams diagrams_format
           only_assets pdf fs =
         bind (resolve ext target source output publication) (\<lambda>cfg.
           bind (prepare ext (cfg\<lparr>c_publication := None\<rparr>) param)
             (\<lambda>(source1, publication1, output1, stringparams).
                dispatch ext source1 publication1 output1 stringparams (c_format cfg)
                  webwork diagrams diagrams_format only_assets)) fs"
proof -
  have same: "\<And>p q. choose_publication ext (stringparams_of param) p
                 = choose_publication ext (stringparams_of param) q"
    using assms by (simp add: choose_publication_def)
  have prep: "prepare ext (c\<lparr>c_publication := p\<rparr>) param = prepare ext c param" for c p
    unfolding prepare_def using same [of p "c_publication c"] by simp
  show ?thesis
    using choose_publication_publisher [OF assms] by (simp add: prep build_def)
qed

theorem publisher_param_overrides_witness:
  "map_of (stringparams_of [''publisher: /proj/publication/publication.ptx''])
     ''publisher'' = Some ''/proj/publication/publication.ptx''
   \<and> choose_publication demo_env (stringparams_of [''publisher: /proj/publication/publication.ptx''])
       (Some ''nowhere.ptx'') demo_fs
     = (Inr ''/proj/publication/publication.ptx'', demo_fs, [])"
proof -
  have key: "map_of (stringparams_of [''publisher: /proj/publication/publication.ptx''])
     ''publisher'' = Some ''/proj/publication/publication.ptx''"
    by (simp add: stringparams_of_def strip_def isspace_def)
  from publisher_param_overrides [OF key, of demo_env "Some ''nowhere.ptx''" demo_fs] key
  show ?thesis
    by (simp add: demo_defs fs_defs demo_fs_def)
qed

subsection \<open>pretext view\<close>

text \<open>
  C7, as the code has it. When no directory is given and the project has no target of
  the given name, \<^verbatim>\<open>view\<close> logs one error record and returns normally: it does not call
  \<^verbatim>\<open>sys.exit\<close>, unlike \<^verbatim>\<open>build\<close> at lines 149 and 162.
\<close>

theorem view_target_not_found_returns:
  assumes "project_target ext target fs = Inr None"
  shows "view ext target access port None watch fs =
         (Inr (), fs, [Log ERROR (''Target `'' @ fmt target @ ''` could not be found.'')])"
  using assms
  by (simp add: view_def Let_def bind_def reading_def log_def emit_def)

theorem view_target_not_found_returns_witness:
  "view demo_env (Some ''web'') ''private'' 8000 None False demo_fs =
     (Inr (), demo_fs, [Log ERROR ''Target `web` could not be found.''])"
  using view_target_not_found_returns [OF demo_no_web, of "''private''" 8000 False]
  by (simp add: fmt_def)

text \<open>
  C7 as stated fails: for the target \<^verbatim>\<open>web\<close>, which the project does not have, the
  command returns (\<open>Inr ()\<close>) and does not exit.
\<close>

theorem view_target_not_found_no_exit:
  "project_target demo_env (Some ''web'') demo_fs = Inr None \<and>
   fst (view demo_env (Some ''web'') ''private'' 8000 None False demo_fs) = Inr ()"
  by (simp add: view_def Let_def bind_def reading_def log_def emit_def demo_no_web)

subsection \<open>pretext new and pretext init\<close>

text \<open>
  C9. Where \<^verbatim>\<open>utils.project_path\<close> finds a project for the directory, \<^verbatim>\<open>new\<close> and
  \<^verbatim>\<open>init\<close> log two warnings and return: the file system is the one they started with,
  and nothing is copied or unpacked.
\<close>

theorem new_and_init_leave_project_alone:
  "(project_path ext (Some (abspath ext directory)) fs = Inr (Some d) \<longrightarrow>
      new ext template directory url_template fs =
        (Inr (), fs,
         [Log WARNING (''A project already exists in `'' @ d @ ''`.''),
          Log WARNING ''No new project will be generated.'']))
   \<and> (project_path ext (Some (abspath ext ''.'')) fs = Inr (Some d) \<longrightarrow>
      init ext fs =
        (Inr (), fs,
         [Log WARNING (''A project already exists in `'' @ d @ ''`.''),
          Log WARNING ''No project manifest will be generated.'']))"
  by (simp add: new_def init_def Let_def already_a_project_def bind_def reading_def log_def
      emit_def fmt_def)

theorem new_and_init_leave_project_alone_witness:
  "new demo_env ''article'' ''.'' None demo_fs =
     (Inr (), demo_fs,
      [Log WARNING ''A project already exists in `/proj`.'',
       Log WARNING ''No new project will be generated.''])
   \<and> init demo_env demo_fs =
     (Inr (), demo_fs,
      [Log WARNING ''A project already exists in `/proj`.'',
       Log WARNING ''No project manifest will be generated.''])"
  using new_and_init_leave_project_alone [of demo_env "''.''" demo_fs "''/proj''" "''article''" None]
    demo_project_here
  by simp

end
